theory Spec2Isabelle
  imports Complex_Main
begin

section \<open>Values shared by the node layer\<close>

text \<open>
  The node layer of \<^verbatim>\<open>py/nodes.py\<close> passes tensors, Python scalars, dictionaries and
  object references between the host and the noise framework. Floats are modelled as
  reals: the code only compares them with \<open>0\<close> and \<open>1\<close> and multiplies them, and
  rounding plays no part in the properties below.
\<close>

datatype dtype = Float16 | BFloat16 | Float32 | Float64

datatype layout = Strided | SparseCoo | SparseCsr

datatype device = CPU | CUDA

text \<open>
  A tensor whose first dimension is the batch: \<open>rows\<close> holds one entry per batch
  element (the flattened contents of that element), \<open>inner_shape\<close> the remaining
  dimensions. Its shape is \<open>length rows # inner_shape\<close>.
\<close>

record tensor =
  inner_shape :: "nat list"
  dtype :: dtype
  layout :: layout
  device :: device
  rows :: "real list list"

definition shape :: "tensor \<Rightarrow> nat list" where
  "shape t = length (rows t) # inner_shape t"

text \<open>
  Addresses of objects that are shared by reference (noise chains). A Python value is a
  scalar, a tensor, a reference, an opaque object of the host or of the noise framework
  (named by a string), a dictionary in insertion order, or a sampler descriptor of the
  host: the names of the parameters its step function declares (what
  \<^verbatim>\<open>inspect.signature\<close> reports), its extra options and its inpaint options.
\<close>

type_synonym ref = nat

datatype pyval =
    PyNone
  | PyBool bool
  | PyInt int
  | PyFloat real
  | PyStr string
  | PyTensor tensor
  | PyRef ref
  | PyObj string
  | PyDict "(string \<times> pyval) list"
  | PySampler ksampler
and ksampler =
    KSAMPLER (sampler_params: "string list")
             (extra_options: "(string \<times> pyval) list")
             (inpaint_options: "(string \<times> pyval) list")

section \<open>Custom noise chains\<close>

datatype item_class =
    CustomNoiseItem | ModulatedNoise | RepeatedNoise | ScheduledNoise
  | CompositeNoise | GuidedNoise | RandomNoise | BlendFilterNoise

text \<open>
  An item of a chain, as \<^verbatim>\<open>self.get_item_class()(factor, **kwargs)\<close> builds it: the
  class, the factor and the keyword arguments in the order the node passes them.
\<close>

record noise_item =
  item_cls :: item_class
  factor :: real
  kwargs :: "(string \<times> pyval) list"

type_synonym chain = "noise_item list"

text \<open>
  The store of chain objects: the object at address \<open>a\<close> is \<open>st ! a\<close>, and a new
  object takes the address \<open>length st\<close>.
\<close>

type_synonym store = "chain list"

text \<open>
  The chain class \<^verbatim>\<open>noise.CustomNoiseChain\<close> is defined in the module \<^verbatim>\<open>noise\<close>,
  which \<^verbatim>\<open>py/nodes.py\<close> imports and which is not part of the sources at hand. Its
  constructor and the three methods the nodes call are modelled from the spec's
  description of a chain: an ordered list of items, each with its own factor;
  \<^verbatim>\<open>add(item)\<close> appends; \<^verbatim>\<open>clone()\<close> deep-copies the list so prior references are
  unaffected; \<^verbatim>\<open>rescaled(target)\<close> returns a new chain with proportionally scaled
  factors summing to \<^verbatim>\<open>target\<close>.
\<close>

text \<open>Modelled from the spec: the constructor of \<^verbatim>\<open>noise.CustomNoiseChain\<close> (module
  \<^verbatim>\<open>noise\<close> is missing), a new chain without items.\<close>

definition CustomNoiseChain :: "store \<Rightarrow> ref \<times> store" where
  "CustomNoiseChain st = (length st, st @ [[]])"

text \<open>Modelled from the spec: \<^verbatim>\<open>CustomNoiseChain.clone\<close> (module \<^verbatim>\<open>noise\<close> is
  missing), a new chain object with a copy of the items; the chain it is called on stays
  as it is.\<close>

definition clone :: "ref \<Rightarrow> store \<Rightarrow> ref \<times> store" where
  "clone a st = (length st, st @ [st ! a])"

text \<open>Modelled from the spec: \<^verbatim>\<open>CustomNoiseChain.add\<close> (module \<^verbatim>\<open>noise\<close> is
  missing), which appends the item to the chain it is called on, in place.\<close>

definition add :: "ref \<Rightarrow> noise_item \<Rightarrow> store \<Rightarrow> store" where
  "add a item st = st[a := st ! a @ [item]]"

text \<open>Modelled from the spec: the factors \<^verbatim>\<open>CustomNoiseChain.rescaled\<close> computes
  (module \<^verbatim>\<open>noise\<close> is missing), every factor multiplied by the target over the sum
  of the factors. The spec says nothing about a chain whose factors sum to \<open>0\<close>, for
  which no such scaling exists; the model leaves the items as they are there, and no
  theorem below depends on that case.\<close>

definition rescaled_items :: "real \<Rightarrow> chain \<Rightarrow> chain" where
  "rescaled_items target items =
     (let total = sum_list (map factor items)
      in if total = 0 then items
         else map (\<lambda>i. i\<lparr>factor := factor i * target / total\<rparr>) items)"

text \<open>Modelled from the spec: \<^verbatim>\<open>CustomNoiseChain.rescaled\<close> (module \<^verbatim>\<open>noise\<close> is
  missing), which returns a new chain and leaves the chain it is called on as it is.\<close>

definition rescaled :: "ref \<Rightarrow> real \<Rightarrow> store \<Rightarrow> ref \<times> store" where
  "rescaled a target st = (length st, st @ [rescaled_items target (st ! a)])"

subsection \<open>\<^verbatim>\<open>SonarCustomNoiseNodeBase.go\<close>\<close>

text \<open>
  \<^verbatim>\<open>
  nis = (sonar_custom_noise_opt.clone() if sonar_custom_noise_opt
         else noise.CustomNoiseChain())
  if factor != 0:
      nis.add(self.get_item_class()(factor, **kwargs))
  return (nis if rescale == 0 else nis.rescaled(rescale),)
  \<close>
  The input is \<open>None\<close> when the port is not connected. A connected chain object is
  taken as truthy (the spec gives the chain class no length or boolean protocol); were
  an empty chain falsy, the node would build a fresh empty chain in its place, with the
  same contents. The first argument is the class \<^verbatim>\<open>get_item_class()\<close> returns.
\<close>

definition SonarCustomNoiseNodeBase_go :: "item_class \<Rightarrow> real \<Rightarrow> real \<Rightarrow> ref option \<Rightarrow> (string \<times> pyval) list
    \<Rightarrow> store \<Rightarrow> ref \<times> store" where
  "SonarCustomNoiseNodeBase_go cls fac rescale sonar_custom_noise_opt kw st =
     (let (nis, st1) = (case sonar_custom_noise_opt of
                          Some c \<Rightarrow> clone c st
                        | None \<Rightarrow> CustomNoiseChain st);
          st2 = (if fac \<noteq> 0
                 then add nis \<lparr>item_cls = cls, factor = fac, kwargs = kw\<rparr> st1
                 else st1)
      in if rescale = 0 then (nis, st2) else rescaled nis rescale st2)"

text \<open>The items of the chain connected to the input port; none when nothing is connected.\<close>

definition input_items :: "store \<Rightarrow> ref option \<Rightarrow> chain" where
  "input_items st opt = (case opt of None \<Rightarrow> [] | Some a \<Rightarrow> st ! a)"

text \<open>\<^verbatim>\<open>SonarCustomNoiseNode\<close>: the leaf node inherits \<^verbatim>\<open>go\<close>; its only keyword is the noise type.\<close>

definition SonarCustomNoiseNode_go :: "real \<Rightarrow> real \<Rightarrow> ref option \<Rightarrow> string \<Rightarrow> store \<Rightarrow> ref \<times> store" where
  "SonarCustomNoiseNode_go fac rescale sonar_custom_noise_opt noise_type st =
     SonarCustomNoiseNodeBase_go CustomNoiseItem fac rescale sonar_custom_noise_opt [(''noise_type'', PyStr noise_type)] st"

text \<open>\<^verbatim>\<open>SonarNormalizeNoiseNodeMixin.get_normalize\<close>:
  \<^verbatim>\<open>None if val == "default" else val == "forced"\<close>.\<close>

definition get_normalize :: "string \<Rightarrow> pyval" where
  "get_normalize val = (if val = ''default'' then PyNone else PyBool (val = ''forced''))"

subsection \<open>\<^verbatim>\<open>SonarCompositeNoiseNode.go\<close>\<close>

text \<open>The node is called with keyword arguments only; the record names them.\<close>

record composite_args =
  c_factor :: real
  sonar_custom_noise_dst :: ref
  sonar_custom_noise_src :: ref
  normalize_src :: string
  normalize_dst :: string
  normalize_result :: string
  mask :: tensor

text \<open>
  \<^verbatim>\<open>
  return super().go(
      factor,
      dst_noise=sonar_custom_noise_dst,
      src_noise=sonar_custom_noise_src,
      normalize_dst=self.get_normalize(normalize_src),
      normalize_src=self.get_normalize(normalize_dst),
      normalize_result=self.get_normalize(normalize_result),
      mask=mask,
  )
  \<close>
\<close>

definition SonarCompositeNoiseNode_go :: "composite_args \<Rightarrow> store \<Rightarrow> ref \<times> store" where
  "SonarCompositeNoiseNode_go a st =
     SonarCustomNoiseNodeBase_go CompositeNoise (c_factor a) 0 None
       [(''dst_noise'', PyRef (sonar_custom_noise_dst a)),
        (''src_noise'', PyRef (sonar_custom_noise_src a)),
        (''normalize_dst'', get_normalize (normalize_src a)),
        (''normalize_src'', get_normalize (normalize_dst a)),
        (''normalize_result'', get_normalize (normalize_result a)),
        (''mask'', PyTensor (mask a))]
       st"

section \<open>Random state, errors and tensor operations\<close>

text \<open>
  The state of a random number generator: \<open>Seeded n\<close> is the state right after seeding
  with \<open>n\<close>, \<open>Opaque k\<close> any other state. \<open>torch_rng\<close> is the state of torch's
  default generator, the one on the CPU, which \<^verbatim>\<open>torch.random.get_rng_state\<close> reads and
  \<^verbatim>\<open>set_rng_state\<close> writes; \<open>accel_rng\<close> is the state of the generators of the
  accelerator devices, which those two functions do not touch; \<open>py_rng\<close> is the state
  of Python's \<^verbatim>\<open>random\<close> module.
\<close>

datatype rng_state = Seeded int | Opaque nat

record rngs =
  torch_rng :: rng_state
  accel_rng :: rng_state
  py_rng :: rng_state

text \<open>
  \<^verbatim>\<open>torch.manual_seed(n)\<close>, which is \<^verbatim>\<open>torch.random.manual_seed(n)\<close>: it seeds the
  default generator and, with it, the generators of all accelerator devices.
\<close>

definition manual_seed :: "int \<Rightarrow> rngs \<Rightarrow> rngs" where
  "manual_seed n r = r\<lparr>torch_rng := Seeded n, accel_rng := Seeded n\<rparr>"

text \<open>
  The exceptions the node layer raises itself, and \<open>External\<close> for one raised by code
  outside \<^verbatim>\<open>py/nodes.py\<close> (a noise sampler or its construction).
\<close>

datatype py_error =
    ValueError string
  | TypeError
  | RuntimeError
  | IndexError
  | ZeroDivisionError
  | NotImplementedError string
  | KeyError string
  | AttributeError string
  | External string

text \<open>
  \<^verbatim>\<open>torch.cat(ts, dim=0)\<close>: fails on an empty sequence and on tensors whose other
  dimensions differ; the result carries the first tensor's type, layout and device
  (type promotion and device mismatches are left out).
\<close>

definition torch_cat :: "tensor list \<Rightarrow> py_error + tensor" where
  "torch_cat ts =
     (case ts of
        [] \<Rightarrow> Inl RuntimeError
      | t # rest \<Rightarrow>
          if list_all (\<lambda>u. inner_shape u = inner_shape t) rest
          then Inr (t\<lparr>rows := concat (map rows ts)\<rparr>)
          else Inl RuntimeError)"

text \<open>\<^verbatim>\<open>torch.zeros(t.shape, dtype=t.dtype, layout=t.layout, device="cpu")\<close>\<close>

definition torch_zeros :: "tensor \<Rightarrow> tensor" where
  "torch_zeros t =
     \<lparr>inner_shape = inner_shape t, dtype = dtype t, layout = layout t, device = CPU,
      rows = replicate (length (rows t)) (replicate (prod_list (inner_shape t)) 0)\<rparr>"

text \<open>\<^verbatim>\<open>t.repeat(n, 1, ..., 1)\<close>: the batch tiled \<open>n\<close> times.\<close>

definition repeat_batch_dim :: "nat \<Rightarrow> tensor \<Rightarrow> tensor" where
  "repeat_batch_dim n t = t\<lparr>rows := concat (replicate n (rows t))\<rparr>"

text \<open>
  \<^verbatim>\<open>result += other.to(result)\<close>: element-wise, for equal shapes (broadcasting of
  unequal shapes is left out and reported as the runtime error torch raises when the
  shapes do not fit).
\<close>

definition tensor_iadd :: "tensor \<Rightarrow> tensor \<Rightarrow> py_error + tensor" where
  "tensor_iadd result other =
     (if shape result = shape other \<and> map length (rows result) = map length (rows other)
      then Inr (result\<lparr>rows := map2 (map2 (+)) (rows result) (rows other)\<rparr>)
      else Inl RuntimeError)"

section \<open>The noise framework and the host, as far as the nodes call them\<close>

text \<open>
  A noise sampler is called with the current and the next sigma; it reads and advances
  the random state and may raise.
\<close>

type_synonym sampler = "real option \<Rightarrow> real option \<Rightarrow> rngs \<Rightarrow> (string + tensor) \<times> rngs"

text \<open>
  A model object, as \<^verbatim>\<open>NoisyLatentLikeNode.go\<close> reads it: a wrapper exposes the
  attribute \<^verbatim>\<open>model\<close>, the innermost model its \<^verbatim>\<open>latent_format.scale_factor\<close>.
\<close>

datatype model = Root real | Wrapper model

text \<open>
  The functions of modules that \<^verbatim>\<open>py/nodes.py\<close> imports and that are not among the
  sources at hand, taken as parameters:
  \<^item> \<open>max_denoise\<close>: the host's \<^verbatim>\<open>samplers.Sampler().max_denoise\<close>, on the innermost
    model and the sigmas;
  \<^item> \<open>make_noise_sampler\<close>: the method of a custom noise object, with the reference
    tensor, \<^verbatim>\<open>sigma_min\<close>, \<^verbatim>\<open>sigma_max\<close> and the keywords \<^verbatim>\<open>seed\<close>, \<^verbatim>\<open>cpu\<close>,
    \<^verbatim>\<open>normalized\<close> (\<open>None\<close> for a keyword the caller leaves out);
  \<^item> \<open>get_noise_sampler\<close>: \<^verbatim>\<open>noise.get_noise_sampler\<close> behind the lookup
    \<^verbatim>\<open>NoiseType[noise_type.upper()]\<close>, with the node's noise type name, the reference
    tensor, the sigma bounds and the seed;
  \<^item> \<open>scale_noise\<close>: \<^verbatim>\<open>noise_generation.scale_noise(tensor, multiplier, normalized)\<close>.
  Building a sampler runs in the random state like any other call, and may raise.
\<close>

record 'c env =
  max_denoise :: "model \<Rightarrow> real list \<Rightarrow> bool"
  make_noise_sampler :: "'c \<Rightarrow> tensor \<Rightarrow> real option \<Rightarrow> real option \<Rightarrow> int option
      \<Rightarrow> bool option \<Rightarrow> bool option \<Rightarrow> rngs \<Rightarrow> (string + sampler) \<times> rngs"
  get_noise_sampler :: "string \<Rightarrow> tensor \<Rightarrow> real option \<Rightarrow> real option \<Rightarrow> int option
      \<Rightarrow> rngs \<Rightarrow> (string + sampler) \<times> rngs"
  scale_noise :: "tensor \<Rightarrow> real \<Rightarrow> bool \<Rightarrow> tensor"

text \<open>A latent, as the host passes it: the samples and the optional batch indices.\<close>

record latent =
  samples :: tensor
  batch_index :: "int list option"

section \<open>\<^verbatim>\<open>NoisyLatentLikeNode.go\<close>\<close>

record 'c noisy_args =
  noise_type :: string
  seed :: "int option"
  latent :: latent
  multiplier :: real
  add_to_latent :: bool
  repeat_batch :: int
  custom_noise_opt :: "'c option"
  mul_by_sigmas_opt :: "real list option"
  model_opt :: "model option"

text \<open>\<^verbatim>\<open>while hasattr(model, "model"): model = model.model\<close>\<close>

fun unwrap_model :: "model \<Rightarrow> model" where
  "unwrap_model (Wrapper m) = unwrap_model m"
| "unwrap_model (Root s) = Root s"

fun scale_factor :: "model \<Rightarrow> real" where
  "scale_factor (Root s) = s"
| "scale_factor (Wrapper m) = scale_factor m"

definition requires_model :: py_error where
  "requires_model = ValueError ''NoisyLatentLike requires a model when sigmas are connected!''"

text \<open>
  \<^verbatim>\<open>
  if sigmas is not None and len(sigmas) > 0:
      if model is None:
          raise ValueError("NoisyLatentLike requires a model when sigmas are connected!")
      while hasattr(model, "model"):
          model = model.model
      latent_scale_factor = model.latent_format.scale_factor
      max_denoise = samplers.Sampler().max_denoise(SimpleNamespace(inner_model=model), sigmas)
      multiplier *= (
          float(torch.sqrt(1.0 + sigmas[0] ** 2.0) if max_denoise else sigmas[0])
          / latent_scale_factor)
  \<close>
  The sigmas are a one-dimensional tensor, a list here. Dividing a Python float by
  \<open>0.0\<close> raises.
\<close>

definition sigma_multiplier :: "'c env \<Rightarrow> real list option \<Rightarrow> model option \<Rightarrow> real \<Rightarrow> py_error + real" where
  "sigma_multiplier env sigmas mdl mult =
     (case sigmas of
        None \<Rightarrow> Inr mult
      | Some sg \<Rightarrow>
          if length sg > 0 then
            (case mdl of
               None \<Rightarrow> Inl requires_model
             | Some m \<Rightarrow>
                 let root = unwrap_model m;
                     latent_scale_factor = scale_factor root;
                     md = max_denoise env root sg;
                     first = (if md then sqrt (1 + (sg ! 0) ^ 2) else sg ! 0)
                 in if latent_scale_factor = 0 then Inl ZeroDivisionError
                    else Inr (mult * (first / latent_scale_factor)))
          else Inr mult)"

text \<open>
  \<^verbatim>\<open>
  if sigmas is not None and sigmas.numel() > 1:
      sigma_min, sigma_max = sigmas[0], sigmas[-1]
      sigma, sigma_next = sigmas[0], sigmas[1]
  else:
      sigma_min, sigma_max, sigma, sigma_next = (None,) * 4
  \<close>
\<close>

definition sigma_bounds :: "real list option
    \<Rightarrow> real option \<times> real option \<times> real option \<times> real option" where
  "sigma_bounds sigmas =
     (case sigmas of
        None \<Rightarrow> (None, None, None, None)
      | Some sg \<Rightarrow>
          if length sg > 1 then (Some (sg ! 0), Some (last sg), Some (sg ! 0), Some (sg ! 1))
          else (None, None, None, None))"

text \<open>The sampler comes from the custom noise when it is connected, else from the noise type.\<close>

definition build_sampler :: "'c env \<Rightarrow> 'c noisy_args \<Rightarrow> tensor \<Rightarrow> real option \<Rightarrow> real option
    \<Rightarrow> rngs \<Rightarrow> (string + sampler) \<times> rngs" where
  "build_sampler env a latent_samples sigma_min sigma_max r =
     (case custom_noise_opt a of
        Some cn \<Rightarrow> make_noise_sampler env cn latent_samples sigma_min sigma_max None None None r
      | None \<Rightarrow> get_noise_sampler env (noise_type a) latent_samples sigma_min sigma_max (seed a) r)"

text \<open>\<^verbatim>\<open>tuple(ns(sigma, sigma_next) for _ in range(repeat_batch))\<close>: the first failure ends it.\<close>

fun draw_batch :: "sampler \<Rightarrow> real option \<Rightarrow> real option \<Rightarrow> nat \<Rightarrow> rngs
    \<Rightarrow> (py_error + tensor list) \<times> rngs" where
  "draw_batch ns sigma sigma_next 0 r = (Inr [], r)"
| "draw_batch ns sigma sigma_next (Suc n) r =
     (case ns sigma sigma_next r of
        (Inl e, r') \<Rightarrow> (Inl (External e), r')
      | (Inr t, r') \<Rightarrow>
          (case draw_batch ns sigma sigma_next n r' of
             (Inl e, r'') \<Rightarrow> (Inl e, r'')
           | (Inr ts, r'') \<Rightarrow> (Inr (t # ts), r'')))"

text \<open>
  The body of the \<^verbatim>\<open>try\<close> block:
  \<^verbatim>\<open>
  torch.random.manual_seed(seed)
  result = torch.cat(tuple(ns(sigma, sigma_next) for _ in range(repeat_batch)), dim=0)
  \<close>
  The seed is declared \<^verbatim>\<open>None | int\<close>; seeding with \<^verbatim>\<open>None\<close> is a type error.
  Seeding writes the default generator and the accelerator generators (\<open>manual_seed\<close>).
\<close>

definition seeded_draw :: "sampler \<Rightarrow> real option \<Rightarrow> real option \<Rightarrow> int option \<Rightarrow> int \<Rightarrow> rngs
    \<Rightarrow> (py_error + tensor) \<times> rngs" where
  "seeded_draw ns sigma sigma_next sd rb r =
     (case sd of
        None \<Rightarrow> (Inl TypeError, r)
      | Some n \<Rightarrow>
          (case draw_batch ns sigma sigma_next (nat rb) (manual_seed n r) of
             (Inl e, r') \<Rightarrow> (Inl e, r')
           | (Inr ts, r') \<Rightarrow> (torch_cat ts, r')))"

text \<open>
  \<^verbatim>\<open>
  randst = torch.random.get_rng_state()
  try:
      ...
  finally:
      torch.random.set_rng_state(randst)
  result = scale_noise(result, multiplier, normalized=True)
  if add_to_latent:
      result += latent_samples.repeat(
          *(repeat_batch if i == 0 else 1 for i in range(latent_samples.ndim))).to(result)
  return ({"samples": result},)
  \<close>
\<close>

definition NoisyLatentLikeNode_go :: "'c env \<Rightarrow> 'c noisy_args \<Rightarrow> rngs \<Rightarrow> (py_error + latent) \<times> rngs" where
  "NoisyLatentLikeNode_go env a r =
     (case sigma_multiplier env (mul_by_sigmas_opt a) (model_opt a) (multiplier a) of
        Inl e \<Rightarrow> (Inl e, r)
      | Inr mult \<Rightarrow>
          (case sigma_bounds (mul_by_sigmas_opt a) of
             (sigma_min, sigma_max, sigma, sigma_next) \<Rightarrow>
               let latent_samples = samples (latent a) in
               (case build_sampler env a latent_samples sigma_min sigma_max r of
                  (Inl e, r1) \<Rightarrow> (Inl (External e), r1)
                | (Inr ns, r1) \<Rightarrow>
                    let randst = torch_rng r1;
                        (res, r2) = seeded_draw ns sigma sigma_next (seed a) (repeat_batch a) r1;
                        r3 = r2\<lparr>torch_rng := randst\<rparr>
                    in (case res of
                          Inl e \<Rightarrow> (Inl e, r3)
                        | Inr drawn \<Rightarrow>
                            let result = scale_noise env drawn mult True in
                            if add_to_latent a
                            then (case tensor_iadd result
                                         (repeat_batch_dim (nat (repeat_batch a)) latent_samples) of
                                    Inl e \<Rightarrow> (Inl e, r3)
                                  | Inr added \<Rightarrow> (Inr \<lparr>samples = added, batch_index = None\<rparr>, r3))
                            else (Inr \<lparr>samples = result, batch_index = None\<rparr>, r3)))))"

section \<open>The adapter to the host's noise interface: \<^verbatim>\<open>CustomNOISE\<close>\<close>

record 'c CustomNOISE =
  self_custom_noise :: 'c
  self_seed :: int
  self_cpu_noise :: bool
  self_normalize :: bool
  self_multiplier :: real

text \<open>
  The state the adapter runs in: the random state, and the record of the noise samples
  requested so far, each with its seed and its reference tensor. \<open>sample_noise\<close> adds
  to the record when it is entered.
\<close>

type_synonym adapter_state = "rngs \<times> (int \<times> tensor) list"

text \<open>
  \<^verbatim>\<open>
  def _sample_noise(self, latent_image, seed):
      result = self.custom_noise.make_noise_sampler(
          latent_image, None, None,
          seed=seed, cpu=self.cpu_noise, normalized=self.normalize,
      )(None, None).to(device="cpu", dtype=latent_image.dtype)
      if result.layout != latent_image.layout:
          if latent_image.layout == torch.sparse_coo:
              return result.to_sparse()
          errstr = f"Cannot handle latent layout {type(latent_image.layout).__name__}"
          raise NotImplementedError(errstr)
      return result if self.multiplier == 1.0 else result.mul_(self.multiplier)
  \<close>
  The type of every layout is \<^verbatim>\<open>torch.layout\<close>, whose name the message carries.
\<close>

definition sample_noise :: "'c env \<Rightarrow> 'c CustomNOISE \<Rightarrow> tensor \<Rightarrow> int \<Rightarrow> adapter_state
    \<Rightarrow> (py_error + tensor) \<times> adapter_state" where
  "sample_noise env self latent_image sd s =
     (case s of (r, tr) \<Rightarrow>
        let tr' = tr @ [(sd, latent_image)] in
        (case make_noise_sampler env (self_custom_noise self) latent_image None None
                (Some sd) (Some (self_cpu_noise self)) (Some (self_normalize self)) r of
           (Inl e, r1) \<Rightarrow> (Inl (External e), (r1, tr'))
         | (Inr ns, r1) \<Rightarrow>
             (case ns None None r1 of
                (Inl e, r2) \<Rightarrow> (Inl (External e), (r2, tr'))
              | (Inr drawn, r2) \<Rightarrow>
                  let result = drawn\<lparr>device := CPU, dtype := dtype latent_image\<rparr> in
                  if layout result \<noteq> layout latent_image then
                    if layout latent_image = SparseCoo
                    then (Inr (result\<lparr>layout := SparseCoo\<rparr>), (r2, tr'))
                    else (Inl (NotImplementedError ''Cannot handle latent layout layout''),
                          (r2, tr'))
                  else if self_multiplier self = 1 then (Inr result, (r2, tr'))
                  else (Inr (result\<lparr>rows := map (map (\<lambda>x. x * self_multiplier self))
                                               (rows result)\<rparr>),
                        (r2, tr')))))"

text \<open>
  The part of \<^verbatim>\<open>_sample_noise\<close> after the draw, on its own: the drawn tensor moved to
  the CPU and to the element type of the latent, then the layout check and the
  multiplier (lines 757 to 766 of the source, as in \<open>sample_noise\<close>).
\<close>

definition finish_sample :: "'c CustomNOISE \<Rightarrow> tensor \<Rightarrow> tensor \<Rightarrow> py_error + tensor" where
  "finish_sample self latent_image drawn =
     (let result = drawn\<lparr>device := CPU, dtype := dtype latent_image\<rparr> in
      if layout result \<noteq> layout latent_image then
        if layout latent_image = SparseCoo then Inr (result\<lparr>layout := SparseCoo\<rparr>)
        else Inl (NotImplementedError ''Cannot handle latent layout layout'')
      else if self_multiplier self = 1 then Inr result
      else Inr (result\<lparr>rows := map (map (\<lambda>x. x * self_multiplier self)) (rows result)\<rparr>))"

text \<open>
  One sample drawn for the adapter: in the random state \<open>r\<close>, the custom noise builds a
  sampler for the reference tensor and the seed (with the adapter's \<^verbatim>\<open>cpu\<close> and
  \<^verbatim>\<open>normalized\<close> flags and no sigma bounds), the sampler is called once without sigmas
  and leaves the random state \<open>r'\<close>, and \<open>noise\<close> is the drawn tensor after the
  adapter's conversion, layout check and multiplier.
\<close>

definition draws_sample :: "'c env \<Rightarrow> 'c CustomNOISE \<Rightarrow> tensor \<Rightarrow> int \<Rightarrow> rngs \<Rightarrow> tensor \<Rightarrow> rngs
    \<Rightarrow> bool" where
  "draws_sample env self reference sd r noise r' =
     (\<exists>ns r1 drawn.
        make_noise_sampler env (self_custom_noise self) reference None None (Some sd)
          (Some (self_cpu_noise self)) (Some (self_normalize self)) r = (Inr ns, r1)
        \<and> ns None None r1 = (Inr drawn, r')
        \<and> finish_sample self reference drawn = Inr noise)"

text \<open>\<^verbatim>\<open>np.unique(batch_inds, return_inverse=True)\<close>: the sorted distinct indices, and for
  every position the place of its index among them.\<close>

definition np_unique :: "int list \<Rightarrow> int list" where
  "np_unique xs = sort (remdups xs)"

definition index_of :: "int list \<Rightarrow> int \<Rightarrow> nat" where
  "index_of us x = length (takeWhile (\<lambda>u. u \<noteq> x) us)"

definition np_inverse :: "int list \<Rightarrow> nat list" where
  "np_inverse xs = map (index_of (np_unique xs)) xs"

text \<open>\<^verbatim>\<open>latent_image[i].unsqueeze(0)\<close>, for \<open>i\<close> below the batch size.\<close>

definition select_example :: "tensor \<Rightarrow> nat \<Rightarrow> tensor" where
  "select_example t i = t\<lparr>rows := [rows t ! i]\<rparr>"

text \<open>
  \<^verbatim>\<open>
  for idx in range(unique_inds[-1] + 1):
      noise = self._sample_noise(
          latent_image[idx % batch_size].unsqueeze(0), self.seed + idx)
      if idx in unique_inds:
          result.append(noise)
  \<close>
  over the indices still to visit; the result lists the kept samples in the order of
  the loop. The remainder by a batch size of \<open>0\<close> raises.
\<close>

fun sample_range :: "'c env \<Rightarrow> 'c CustomNOISE \<Rightarrow> tensor \<Rightarrow> int list \<Rightarrow> nat list \<Rightarrow> adapter_state
    \<Rightarrow> (py_error + tensor list) \<times> adapter_state" where
  "sample_range env self latent_image unique_inds [] s = (Inr [], s)"
| "sample_range env self latent_image unique_inds (idx # idxs) s =
     (let batch_size = length (rows latent_image) in
      if batch_size = 0 then (Inl ZeroDivisionError, s)
      else
        (case sample_noise env self (select_example latent_image (idx mod batch_size))
                (self_seed self + int idx) s of
           (Inl e, s') \<Rightarrow> (Inl e, s')
         | (Inr noise, s') \<Rightarrow>
             (case sample_range env self latent_image unique_inds idxs s' of
                (Inl e, s'') \<Rightarrow> (Inl e, s'')
              | (Inr result, s'') \<Rightarrow>
                  (Inr (if int idx \<in> set unique_inds then noise # result else result), s''))))"

text \<open>\<^verbatim>\<open>tuple(result[i] for i in inverse_inds)\<close>: an index past the end raises.\<close>

fun gather :: "tensor list \<Rightarrow> nat list \<Rightarrow> py_error + tensor list" where
  "gather result [] = Inr []"
| "gather result (i # is) =
     (if i < length result
      then (case gather result is of Inl e \<Rightarrow> Inl e | Inr ts \<Rightarrow> Inr (result ! i # ts))
      else Inl IndexError)"

text \<open>
  \<^verbatim>\<open>
  def generate_noise(self, input_latent):
      latent_image = input_latent["samples"]
      batch_inds = input_latent.get("batch_index")
      torch.manual_seed(self.seed)
      random.seed(self.seed)
      if self.multiplier == 0.0:
          return torch.zeros(latent_image.shape, dtype=latent_image.dtype,
                             layout=latent_image.layout, device="cpu")
      if batch_inds is None:
          return self._sample_noise(latent_image, self.seed)
      unique_inds, inverse_inds = np.unique(batch_inds, return_inverse=True)
      result = []
      batch_size = latent_image.shape[0]
      for idx in range(unique_inds[-1] + 1):
          ...
      return torch.cat(tuple(result[i] for i in inverse_inds), axis=0)
  \<close>
  \<^verbatim>\<open>unique_inds[-1]\<close> raises when there is no index at all.
\<close>

definition generate_noise :: "'c env \<Rightarrow> 'c CustomNOISE \<Rightarrow> latent \<Rightarrow> adapter_state
    \<Rightarrow> (py_error + tensor) \<times> adapter_state" where
  "generate_noise env self input_latent s =
     (case s of (r, tr) \<Rightarrow>
        let latent_image = samples input_latent;
            batch_inds = batch_index input_latent;
            s1 = ((manual_seed (self_seed self) r)\<lparr>py_rng := Seeded (self_seed self)\<rparr>, tr)
        in if self_multiplier self = 0 then (Inr (torch_zeros latent_image), s1)
           else
             (case batch_inds of
                None \<Rightarrow> sample_noise env self latent_image (self_seed self) s1
              | Some inds \<Rightarrow>
                  let unique_inds = np_unique inds;
                      inverse_inds = np_inverse inds
                  in if unique_inds = [] then (Inl IndexError, s1)
                     else
                       (case sample_range env self latent_image unique_inds
                               [0 ..< nat (last unique_inds + 1)] s1 of
                          (Inl e, s2) \<Rightarrow> (Inl e, s2)
                        | (Inr result, s2) \<Rightarrow>
                            (case gather result inverse_inds of
                               Inl e \<Rightarrow> (Inl e, s2)
                             | Inr ts \<Rightarrow> (torch_cat ts, s2)))))"

text \<open>
  A custom noise object whose samplers behave as the spec describes a noise sampler
  (one fresh tensor shaped like the reference): for the keywords the adapter passes,
  building succeeds, the one draw succeeds, and the drawn tensor has the layout, the
  inner dimensions and the batch size of its reference.
\<close>

definition samples_like_reference :: "'c env \<Rightarrow> 'c CustomNOISE \<Rightarrow> bool" where
  "samples_like_reference env self =
     (\<forall>t sd r. \<exists>ns r1 u r2.
        make_noise_sampler env (self_custom_noise self) t None None (Some sd)
          (Some (self_cpu_noise self)) (Some (self_normalize self)) r = (Inr ns, r1)
        \<and> ns None None r1 = (Inr u, r2)
        \<and> layout u = layout t \<and> inner_shape u = inner_shape t
        \<and> length (rows u) = length (rows t))"

section \<open>\<^verbatim>\<open>SamplerNodeConfigOverride\<close>\<close>

subsection \<open>Dictionaries\<close>

type_synonym dict = "(string \<times> pyval) list"

text \<open>\<^verbatim>\<open>d.get(k)\<close>, \<^verbatim>\<open>d.get(k, default)\<close>, \<^verbatim>\<open>d[k] = v\<close> and \<^verbatim>\<open>a | b\<close>.\<close>

definition dict_get :: "dict \<Rightarrow> string \<Rightarrow> pyval" where
  "dict_get d k = (case map_of d k of None \<Rightarrow> PyNone | Some v \<Rightarrow> v)"

definition dict_get_default :: "dict \<Rightarrow> string \<Rightarrow> pyval \<Rightarrow> pyval" where
  "dict_get_default d k dflt = (case map_of d k of None \<Rightarrow> dflt | Some v \<Rightarrow> v)"

fun dict_set :: "dict \<Rightarrow> string \<Rightarrow> pyval \<Rightarrow> dict" where
  "dict_set [] k v = [(k, v)]"
| "dict_set ((k', v') # d) k v =
     (if k' = k then (k, v) # d else (k', v') # dict_set d k v)"

fun dict_merge :: "dict \<Rightarrow> dict \<Rightarrow> dict" where
  "dict_merge a [] = a"
| "dict_merge a ((k, v) # b) = dict_merge (dict_set a k v) b"

text \<open>\<^verbatim>\<open>str.upper\<close> on ASCII letters.\<close>

definition upper :: "string \<Rightarrow> string" where
  "upper s = map (\<lambda>c. let n = (of_char c :: nat)
                       in if 97 \<le> n \<and> n \<le> 122 then char_of (n - 32) else c) s"

subsection \<open>\<^verbatim>\<open>get_sampler\<close>\<close>

definition KWARG_OVERRIDES :: "string list" where
  "KWARG_OVERRIDES = [''s_noise'', ''eta'', ''s_churn'', ''r'', ''solver_type'']"

text \<open>
  The inputs of the node, with the types of its ports: floats, a choice of solver, two
  booleans, the wrapped sampler, and the optional noise type and custom noise.
\<close>

record override_args =
  o_sampler :: ksampler
  o_eta :: real
  o_s_noise :: real
  o_s_churn :: real
  o_r :: real
  o_sde_solver :: string
  o_cpu_noise :: bool
  o_noise_type :: "string option"
  o_custom_noise_opt :: "pyval option"
  o_normalize :: bool

text \<open>
  The dictionary \<^verbatim>\<open>get_sampler\<close> stores under \<^verbatim>\<open>"override_sampler_cfg"\<close>. A member
  of the enumeration \<^verbatim>\<open>NoiseType\<close> (module \<^verbatim>\<open>noise\<close>) is an opaque object named by
  the upper-case name the code looks up; an input that is not connected is \<open>None\<close>.
\<close>

definition override_sampler_cfg :: "override_args \<Rightarrow> dict" where
  "override_sampler_cfg a =
     [(''sampler'', PySampler (o_sampler a)),
      (''noise_type'', (case o_noise_type a of
                          None \<Rightarrow> PyNone
                        | Some n \<Rightarrow> PyObj (''NoiseType.'' @ upper n))),
      (''custom_noise'', (case o_custom_noise_opt a of None \<Rightarrow> PyNone | Some c \<Rightarrow> c)),
      (''s_noise'', PyFloat (o_s_noise a)),
      (''eta'', PyFloat (o_eta a)),
      (''s_churn'', PyFloat (o_s_churn a)),
      (''r'', PyFloat (o_r a)),
      (''solver_type'', PyStr (o_sde_solver a)),
      (''cpu_noise'', PyBool (o_cpu_noise a)),
      (''normalize'', PyBool (o_normalize a))]"

text \<open>The parameters \<^verbatim>\<open>SamplerNodeConfigOverride.sampler_function\<close> declares.\<close>

definition sampler_function_params :: "string list" where
  "sampler_function_params =
     [''model'', ''x'', ''sigmas'', ''args'', ''override_sampler_cfg'', ''noise_sampler'',
      ''extra_args'', ''kwargs'']"

text \<open>
  \<^verbatim>\<open>
  samplers.KSAMPLER(
      self.sampler_function,
      extra_options=sampler.extra_options | {"override_sampler_cfg": {...}},
      inpaint_options=sampler.inpaint_options | {},
  )
  \<close>
\<close>

definition get_sampler :: "override_args \<Rightarrow> ksampler" where
  "get_sampler a =
     KSAMPLER sampler_function_params
       (dict_merge (extra_options (o_sampler a))
          [(''override_sampler_cfg'', PyDict (override_sampler_cfg a))])
       (dict_merge (inpaint_options (o_sampler a)) [])"

subsection \<open>\<^verbatim>\<open>sampler_function\<close>\<close>

text \<open>
  The noise framework, as \<^verbatim>\<open>sampler_function\<close> calls it, taken as parameters: the
  method \<^verbatim>\<open>make_noise_sampler\<close> of the configured custom noise and
  \<^verbatim>\<open>noise.get_noise_sampler\<close>, each with the custom noise (or the noise type), the
  tensor, \<^verbatim>\<open>sigma_min\<close>, \<^verbatim>\<open>sigma_max\<close> and the keywords \<^verbatim>\<open>seed\<close>, \<^verbatim>\<open>cpu\<close>,
  \<^verbatim>\<open>normalized\<close>. Each returns the sampler callback, or raises.
\<close>

record override_env =
  custom_make_noise_sampler ::
    "pyval \<Rightarrow> tensor \<Rightarrow> real \<Rightarrow> real \<Rightarrow> pyval \<Rightarrow> pyval \<Rightarrow> pyval \<Rightarrow> string + pyval"
  noise_get_noise_sampler ::
    "pyval \<Rightarrow> tensor \<Rightarrow> real \<Rightarrow> real \<Rightarrow> pyval \<Rightarrow> pyval \<Rightarrow> pyval \<Rightarrow> string + pyval"

text \<open>
  What \<^verbatim>\<open>sampler_function\<close> ends with: the call of the wrapped step function,
  \<^verbatim>\<open>sampler.sampler_function(model, x, sigmas, *args, extra_args=extra_args, **kwargs)\<close>.
  The step function belongs to the wrapped sampler; the model gives the call it receives.
\<close>

record step_call =
  call_model :: pyval
  call_x :: tensor
  call_sigmas :: "real list"
  call_args :: "pyval list"
  call_extra_args :: dict
  call_kwargs :: dict

text \<open>
  \<^verbatim>\<open>
  for k in cls.KWARG_OVERRIDES:
      if k not in params or cfg.get(k) is None:
          continue
      kwargs[k] = cfg[k]
  \<close>
\<close>

fun apply_overrides :: "string list \<Rightarrow> dict \<Rightarrow> string list \<Rightarrow> dict \<Rightarrow> dict" where
  "apply_overrides params cfg [] kw = kw"
| "apply_overrides params cfg (k # ks) kw =
     (if k \<notin> set params \<or> dict_get cfg k = PyNone
      then apply_overrides params cfg ks kw
      else apply_overrides params cfg ks (dict_set kw k (dict_get cfg k)))"

text \<open>
  \<^verbatim>\<open>
  if custom_noise is not None:
      noise_sampler = custom_noise.make_noise_sampler(
          x, sigma_min, sigma_max, seed=seed, cpu=cpu, normalized=normalize)
  elif noise_type is not None:
      noise_sampler = noise.get_noise_sampler(
          noise_type, x, sigma_min, sigma_max, seed=seed, cpu=cpu, normalized=normalize)
  \<close>
\<close>

definition choose_noise_sampler :: "override_env \<Rightarrow> dict \<Rightarrow> tensor \<Rightarrow> real \<Rightarrow> real \<Rightarrow> pyval
    \<Rightarrow> pyval \<Rightarrow> py_error + pyval" where
  "choose_noise_sampler env cfg x sigma_min sigma_max sd noise_sampler =
     (let noise_ty = dict_get cfg ''noise_type'';
          custom_noise = dict_get cfg ''custom_noise'';
          cpu = dict_get_default cfg ''cpu_noise'' (PyBool True);
          normalize = dict_get_default cfg ''normalize'' (PyBool True)
      in if custom_noise \<noteq> PyNone then
           (case custom_make_noise_sampler env custom_noise x sigma_min sigma_max sd cpu normalize of
              Inl e \<Rightarrow> Inl (External e) | Inr ns \<Rightarrow> Inr ns)
         else if noise_ty \<noteq> PyNone then
           (case noise_get_noise_sampler env noise_ty x sigma_min sigma_max sd cpu normalize of
              Inl e \<Rightarrow> Inl (External e) | Inr ns \<Rightarrow> Inr ns)
         else Inr noise_sampler)"

text \<open>
  \<^verbatim>\<open>
  def sampler_function(cls, model, x, sigmas, *args,
                       override_sampler_cfg=None, noise_sampler=None, extra_args=None,
                       **kwargs):
      if not override_sampler_cfg:
          raise ValueError("Override sampler config missing!")
      if extra_args is None:
          extra_args = {}
      cfg = override_sampler_cfg
      sampler, noise_type, custom_noise, cpu, normalize = (cfg["sampler"], ...)
      sigma_min, sigma_max = sigmas[sigmas > 0].min(), sigmas.max()
      seed = extra_args.get("seed")
      ...
      sig = inspect.signature(sampler.sampler_function)
      params = sig.parameters
      kwargs = kwargs.copy()
      if "noise_sampler" in params:
          kwargs["noise_sampler"] = noise_sampler
      ...
      return sampler.sampler_function(model, x, sigmas, *args,
                                      extra_args=extra_args, **kwargs)
  \<close>
  A missing \<^verbatim>\<open>"sampler"\<close> is a key error, a value there that is no sampler has no
  attribute \<^verbatim>\<open>sampler_function\<close>; the minimum of no positive sigma is torch's runtime
  error.
\<close>

definition sampler_function :: "override_env \<Rightarrow> pyval \<Rightarrow> tensor \<Rightarrow> real list \<Rightarrow> pyval list
    \<Rightarrow> dict option \<Rightarrow> pyval \<Rightarrow> dict option \<Rightarrow> dict \<Rightarrow> py_error + step_call" where
  "sampler_function env mdl x sigmas args override_cfg noise_sampler extra_args_opt kw =
     (case override_cfg of
        None \<Rightarrow> Inl (ValueError ''Override sampler config missing!'')
      | Some cfg \<Rightarrow>
          if cfg = [] then Inl (ValueError ''Override sampler config missing!'')
          else
            let extra_args = (case extra_args_opt of None \<Rightarrow> [] | Some d \<Rightarrow> d) in
            (case map_of cfg ''sampler'' of
               None \<Rightarrow> Inl (KeyError ''sampler'')
             | Some (PySampler wrapped) \<Rightarrow>
                 if filter (\<lambda>s. 0 < s) sigmas = [] then Inl RuntimeError
                 else
                   let sigma_min = Min (set (filter (\<lambda>s. 0 < s) sigmas));
                       sigma_max = Max (set sigmas);
                       sd = dict_get extra_args ''seed''
                   in (case choose_noise_sampler env cfg x sigma_min sigma_max sd noise_sampler of
                         Inl e \<Rightarrow> Inl e
                       | Inr ns \<Rightarrow>
                           let params = sampler_params wrapped;
                               kw1 = (if ''noise_sampler'' \<in> set params
                                      then dict_set kw ''noise_sampler'' ns else kw);
                               kw2 = apply_overrides params cfg KWARG_OVERRIDES kw1
                           in Inr \<lparr>call_model = mdl, call_x = x, call_sigmas = sigmas,
                                   call_args = args, call_extra_args = extra_args,
                                   call_kwargs = kw2\<rparr>)
             | Some _ \<Rightarrow> Inl (AttributeError ''sampler_function'')))"

section \<open>The node registration table\<close>

datatype node_class =
    SamplerNodeSonarEuler | SamplerNodeSonarEulerAncestral | SamplerNodeSonarDPMPPSDE
  | GuidanceConfigNode | SamplerNodeConfigOverride | NoisyLatentLikeNode
  | SonarCustomNoiseNode | SonarCompositeNoiseNode | SonarModulatedNoiseNode
  | SonarRepeatedNoiseNode | SonarScheduledNoiseNode | SonarGuidedNoiseNode
  | SonarRandomNoiseNode | SonarToComfyNOISENode
  | SonarBlendFilterNoiseNode | KRestartSamplerCustomNoise | RestartSamplerCustomNoise

text \<open>
  A sibling plugin, as far as the module reads it while it loads: whether
  \<^verbatim>\<open>hasattr(rs.restart_sampling, "RestartSampler")\<close> holds. The discovery registry
  \<^verbatim>\<open>external.MODULES\<close> maps the names of the plugins that are available to them.
\<close>

record plugin =
  has_RestartSampler :: bool

type_synonym modules = "string \<rightharpoonup> plugin"

text \<open>
  \<^verbatim>\<open>NODE_CLASS_MAPPINGS\<close> when the module has loaded: the fourteen entries of the
  literal, then
  \<^verbatim>\<open>
  if "bleh" in external.MODULES:
      ...
      NODE_CLASS_MAPPINGS["SonarBlendFilterNoise"] = SonarBlendFilterNoiseNode
  if "restart" in external.MODULES:
      rs = external.MODULES["restart"]
      ...
      NODE_CLASS_MAPPINGS["KRestartSamplerCustomNoise"] = KRestartSamplerCustomNoise
      if hasattr(rs.restart_sampling, "RestartSampler"):
          ...
          NODE_CLASS_MAPPINGS["RestartSamplerCustomNoise"] = RestartSamplerCustomNoise
  \<close>
\<close>

definition NODE_CLASS_MAPPINGS :: "modules \<Rightarrow> (string \<times> node_class) list" where
  "NODE_CLASS_MAPPINGS MODULES =
     [(''SamplerSonarEuler'', SamplerNodeSonarEuler),
      (''SamplerSonarEulerA'', SamplerNodeSonarEulerAncestral),
      (''SamplerSonarDPMPPSDE'', SamplerNodeSonarDPMPPSDE),
      (''SonarGuidanceConfig'', GuidanceConfigNode),
      (''SamplerConfigOverride'', SamplerNodeConfigOverride),
      (''NoisyLatentLike'', NoisyLatentLikeNode),
      (''SonarCustomNoise'', SonarCustomNoiseNode),
      (''SonarCompositeNoise'', SonarCompositeNoiseNode),
      (''SonarModulatedNoise'', SonarModulatedNoiseNode),
      (''SonarRepeatedNoise'', SonarRepeatedNoiseNode),
      (''SonarScheduledNoise'', SonarScheduledNoiseNode),
      (''SonarGuidedNoise'', SonarGuidedNoiseNode),
      (''SonarRandomNoise'', SonarRandomNoiseNode),
      (''SONAR_CUSTOM_NOISE to NOISE'', SonarToComfyNOISENode)]
     @ (if MODULES ''bleh'' \<noteq> None
        then [(''SonarBlendFilterNoise'', SonarBlendFilterNoiseNode)] else [])
     @ (case MODULES ''restart'' of
          None \<Rightarrow> []
        | Some rs \<Rightarrow>
            [(''KRestartSamplerCustomNoise'', KRestartSamplerCustomNoise)]
            @ (if has_RestartSampler rs
               then [(''RestartSamplerCustomNoise'', RestartSamplerCustomNoise)] else []))"

text \<open>A class is registered when some entry of the table maps to it.\<close>

definition registered :: "modules \<Rightarrow> node_class \<Rightarrow> bool" where
  "registered MODULES c = (c \<in> set (map snd (NODE_CLASS_MAPPINGS MODULES)))"

section \<open>Concrete inputs\<close>

text \<open>The inputs at which the theorems below are instantiated.\<close>

definition example_tensor :: tensor where
  "example_tensor = \<lparr>inner_shape = [2], dtype = Float32, layout = Strided, device = CPU,
     rows = [[1, 2], [3, 4]]\<rparr>"

text \<open>A sampler that fills its reference with the seed and advances the generator.\<close>

definition seed_sampler :: "tensor \<Rightarrow> int \<Rightarrow> sampler" where
  "seed_sampler t n = (\<lambda>sigma sigma_next r.
     (Inr (t\<lparr>rows := map (map (\<lambda>_. real_of_int n)) (rows t)\<rparr>), r\<lparr>torch_rng := Opaque 1\<rparr>))"

text \<open>A sampler that advances the generator and raises.\<close>

definition failing_sampler :: sampler where
  "failing_sampler = (\<lambda>sigma sigma_next r. (Inl ''sampling failed'', r\<lparr>torch_rng := Opaque 2\<rparr>))"

text \<open>An environment whose custom noise object is a flag: \<open>True\<close> samples, \<open>False\<close> raises.\<close>

definition example_env :: "bool env" where
  "example_env = \<lparr>
     max_denoise = (\<lambda>m sg. False),
     make_noise_sampler = (\<lambda>c t lo hi sd cp nm r.
        (Inr (if c then seed_sampler t (case sd of None \<Rightarrow> 0 | Some n \<Rightarrow> n)
              else failing_sampler), r)),
     get_noise_sampler = (\<lambda>name t lo hi sd r.
        (Inr (seed_sampler t (case sd of None \<Rightarrow> 0 | Some n \<Rightarrow> n)), r)),
     scale_noise = (\<lambda>t m normalized. t\<lparr>rows := map (map (\<lambda>x. m * x)) (rows t)\<rparr>)\<rparr>"

text \<open>
  The same environment with a \<^verbatim>\<open>get_noise_sampler\<close> that draws from the default
  generator while it builds the sampler.
\<close>

definition drawing_build_env :: "bool env" where
  "drawing_build_env = example_env\<lparr>
     get_noise_sampler := (\<lambda>name t lo hi sd r.
        (Inr (seed_sampler t (case sd of None \<Rightarrow> 0 | Some n \<Rightarrow> n)), r\<lparr>torch_rng := Opaque 99\<rparr>))\<rparr>"

definition example_args :: "bool noisy_args" where
  "example_args = \<lparr>noise_type = ''gaussian'', seed = Some 5,
     latent = \<lparr>samples = example_tensor, batch_index = None\<rparr>, multiplier = 1,
     add_to_latent = False, repeat_batch = 2, custom_noise_opt = None,
     mul_by_sigmas_opt = None, model_opt = None\<rparr>"

definition example_rngs :: rngs where
  "example_rngs = \<lparr>torch_rng = Opaque 7, accel_rng = Opaque 9, py_rng = Opaque 8\<rparr>"

definition example_adapter :: "bool CustomNOISE" where
  "example_adapter = \<lparr>self_custom_noise = True, self_seed = 10, self_cpu_noise = True,
     self_normalize = True, self_multiplier = 2\<rparr>"

definition unit_item :: noise_item where
  "unit_item = \<lparr>item_cls = CustomNoiseItem, factor = 1,
     kwargs = [(''noise_type'', PyStr ''gaussian'')]\<rparr>"

text \<open>
  Two wrapped samplers: one whose step function declares \<^verbatim>\<open>eta\<close>, \<^verbatim>\<open>s_noise\<close> and
  \<^verbatim>\<open>noise_sampler\<close> and no \<^verbatim>\<open>r\<close>, and one whose step function declares \<^verbatim>\<open>r\<close>
  as well and brings an \<^verbatim>\<open>r\<close> of its own in its extra options.
\<close>

definition ancestral_sampler :: ksampler where
  "ancestral_sampler = KSAMPLER
     [''model'', ''x'', ''sigmas'', ''extra_args'', ''callback'', ''disable'', ''eta'',
      ''s_noise'', ''noise_sampler'']
     [(''eta'', PyFloat 1)] []"

definition sde_sampler :: ksampler where
  "sde_sampler = KSAMPLER
     [''model'', ''x'', ''sigmas'', ''extra_args'', ''callback'', ''disable'', ''eta'',
      ''s_noise'', ''noise_sampler'', ''r'']
     [(''r'', PyFloat (1 / 2))] []"

definition example_override_args :: override_args where
  "example_override_args = \<lparr>o_sampler = ancestral_sampler, o_eta = 3, o_s_noise = 2,
     o_s_churn = 0, o_r = 1 / 4, o_sde_solver = ''midpoint'', o_cpu_noise = True,
     o_noise_type = None, o_custom_noise_opt = None, o_normalize = True\<rparr>"

definition example_override_env :: override_env where
  "example_override_env = \<lparr>
     custom_make_noise_sampler = (\<lambda>c x lo hi sd cpu nm. Inr (PyObj ''custom sampler'')),
     noise_get_noise_sampler = (\<lambda>n x lo hi sd cpu nm. Inr (PyObj ''typed sampler''))\<rparr>"

section \<open>Properties of the noise-composition nodes\<close>

text \<open>
  C1. For \<^verbatim>\<open>SonarCompositeNoise\<close>, the input \<^verbatim>\<open>normalize_dst\<close> is to control the
  normalization flag of the dst child's noise and \<^verbatim>\<open>normalize_src\<close> that of the src
  child, without the two being interchanged. The code passes
  \<^verbatim>\<open>normalize_dst=self.get_normalize(normalize_src)\<close> and
  \<^verbatim>\<open>normalize_src=self.get_normalize(normalize_dst)\<close>: called with
  \<^verbatim>\<open>normalize_dst="forced"\<close> and \<^verbatim>\<open>normalize_src="disabled"\<close>, the node builds a
  composite item whose \<^verbatim>\<open>normalize_dst\<close> is \<open>False\<close> and whose
  \<^verbatim>\<open>normalize_src\<close> is \<open>True\<close>.
\<close>

theorem composite_normalize_flags_interchanged:
  "(case SonarCompositeNoiseNode_go
           \<lparr>c_factor = 1, sonar_custom_noise_dst = 0, sonar_custom_noise_src = 1,
            normalize_src = ''disabled'', normalize_dst = ''forced'',
            normalize_result = ''default'', mask = example_tensor\<rparr>
           [[unit_item], [unit_item]] of
      (r, st') \<Rightarrow>
        map (\<lambda>i. (item_cls i, map_of (kwargs i) ''normalize_dst'',
                   map_of (kwargs i) ''normalize_src'')) (st' ! r))
   = [(CompositeNoise, Some (PyBool False), Some (PyBool True))]"
  by (simp add: SonarCompositeNoiseNode_go_def SonarCustomNoiseNodeBase_go_def
      CustomNoiseChain_def add_def get_normalize_def Let_def)

text \<open>
  C2. For every noise-composition node, a call with \<^verbatim>\<open>factor = 0\<close> is to return the
  input chain unchanged, whatever the other parameters, the rescale value included.
  Every such node delegates to \<^verbatim>\<open>SonarCustomNoiseNodeBase.go\<close>, which appends nothing
  when the factor is \<open>0\<close> but still rescales: with \<^verbatim>\<open>factor = 0\<close> and
  \<^verbatim>\<open>rescale = 4\<close> on a chain with the factors \<open>[1, 1]\<close>, the returned chain has the
  factors \<open>[2, 2]\<close>.
\<close>

theorem factor_zero_rescale_counterexample:
  "(case SonarCustomNoiseNode_go 0 4 (Some 0) ''gaussian'' [[unit_item, unit_item]] of
      (r, st') \<Rightarrow> map factor (st' ! r)) = [2, 2]
   \<and> (case SonarCustomNoiseNode_go 0 4 (Some 0) ''gaussian'' [[unit_item, unit_item]] of
      (r, st') \<Rightarrow> st' ! r) \<noteq> [unit_item, unit_item]"
  by (simp add: SonarCustomNoiseNode_go_def SonarCustomNoiseNodeBase_go_def clone_def
      add_def rescaled_def rescaled_items_def unit_item_def Let_def)

text \<open>
  C2, as the code has it: with \<^verbatim>\<open>factor = 0\<close> no item is appended. The returned chain
  holds the items of the input chain (none when no chain is connected) when
  \<^verbatim>\<open>rescale = 0\<close>, and those items rescaled to the target when \<^verbatim>\<open>rescale\<close> is not
  \<open>0\<close>.
\<close>

theorem go_factor_zero:
  assumes "\<forall>a. opt = Some a \<longrightarrow> a < length st"
  shows "(case SonarCustomNoiseNodeBase_go cls 0 rescale opt kw st of (r, st') \<Rightarrow> st' ! r)
         = (if rescale = 0 then input_items st opt
            else rescaled_items rescale (input_items st opt))"
  using assms
  by (auto simp: SonarCustomNoiseNodeBase_go_def clone_def CustomNoiseChain_def add_def
      rescaled_def input_items_def Let_def nth_append split: option.splits)

theorem go_factor_zero_witness:
  "(case SonarCustomNoiseNodeBase_go CustomNoiseItem 0 0 (Some 0) [] [[unit_item, unit_item]] of
      (r, st') \<Rightarrow> st' ! r) = [unit_item, unit_item]
   \<and> (case SonarCustomNoiseNodeBase_go CustomNoiseItem 0 4 (Some 0) [] [[unit_item, unit_item]] of
      (r, st') \<Rightarrow> map factor (st' ! r)) = [2, 2]
   \<and> (case SonarCustomNoiseNodeBase_go CompositeNoise 0 0 None [] [[unit_item, unit_item]] of
      (r, st') \<Rightarrow> st' ! r) = []"
  using go_factor_zero [of "Some 0" "[[unit_item, unit_item]]" CustomNoiseItem 0 "[]"]
        go_factor_zero [of "Some 0" "[[unit_item, unit_item]]" CustomNoiseItem 4 "[]"]
        go_factor_zero [of None "[[unit_item, unit_item]]" CompositeNoise 0 "[]"]
  by (simp add: input_items_def rescaled_items_def unit_item_def split: prod.splits)

text \<open>
  C9. For every noise-composition node with a chain input connected, the call works on
  a clone of the incoming chain: the connected chain object is not mutated, neither by
  appending the new item nor by rescaling, so its contents after the call are its
  contents before. The chain input is the port \<^verbatim>\<open>sonar_custom_noise_opt\<close> of
  \<^verbatim>\<open>SonarCustomNoiseNodeBase.go\<close>. In the store, the object at the input's address is
  what it was, no object that existed before the call has changed, and the returned
  chain is another object than the input; this holds for every item class, factor,
  rescale value and keyword arguments.
\<close>

theorem go_input_chain_not_mutated:
  assumes "a < length st"
  shows "snd (SonarCustomNoiseNodeBase_go cls fac rescale (Some a) kw st) ! a = st ! a
       \<and> take (length st) (snd (SonarCustomNoiseNodeBase_go cls fac rescale (Some a) kw st)) = st
       \<and> fst (SonarCustomNoiseNodeBase_go cls fac rescale (Some a) kw st) \<noteq> a"
  using assms
  by (auto simp: SonarCustomNoiseNodeBase_go_def clone_def add_def rescaled_def Let_def
      nth_append)

theorem go_input_chain_not_mutated_witness:
  "snd (SonarCustomNoiseNodeBase_go CustomNoiseItem 3 8 (Some 0)
          [(''noise_type'', PyStr ''gaussian'')] [[unit_item]]) ! 0 = [unit_item]
   \<and> map (map factor) (snd (SonarCustomNoiseNodeBase_go CustomNoiseItem 3 8 (Some 0)
          [(''noise_type'', PyStr ''gaussian'')] [[unit_item]])) = [[1], [1, 3], [2, 6]]
   \<and> fst (SonarCustomNoiseNodeBase_go CustomNoiseItem 3 8 (Some 0)
          [(''noise_type'', PyStr ''gaussian'')] [[unit_item]]) = 2"
  using go_input_chain_not_mutated
          [of 0 "[[unit_item]]" CustomNoiseItem 3 8 "[(''noise_type'', PyStr ''gaussian'')]"]
  by (simp add: SonarCustomNoiseNodeBase_go_def clone_def add_def rescaled_def
      rescaled_items_def unit_item_def Let_def)

section \<open>Properties of \<^verbatim>\<open>NoisyLatentLikeNode.go\<close>\<close>

subsection \<open>Where a \<^verbatim>\<open>ValueError\<close> can come from\<close>

lemma draw_batch_no_ValueError:
  "fst (draw_batch ns s sn n r) \<noteq> Inl (ValueError m)"
proof (induction n arbitrary: r)
  case 0
  show ?case by simp
next
  case (Suc n)
  show ?case
  proof (cases "ns s sn r")
    case (Pair res r')
    show ?thesis
    proof (cases res)
      case (Inl e)
      then show ?thesis using Pair by simp
    next
      case (Inr t)
      then show ?thesis using Pair Suc [of r']
        by (cases "draw_batch ns s sn n r'") (auto split: sum.splits)
    qed
  qed
qed

lemma torch_cat_no_ValueError: "torch_cat ts \<noteq> Inl (ValueError m)"
  by (auto simp: torch_cat_def split: list.splits)

lemma seeded_draw_no_ValueError:
  "fst (seeded_draw ns s sn sd rb r) \<noteq> Inl (ValueError m)"
proof (cases sd)
  case None
  then show ?thesis by (simp add: seeded_draw_def)
next
  case (Some n)
  obtain res r' where d: "draw_batch ns s sn (nat rb) (manual_seed n r) = (res, r')"
    by (cases "draw_batch ns s sn (nat rb) (manual_seed n r)") auto
  have "res \<noteq> Inl (ValueError m)"
    using draw_batch_no_ValueError [of ns s sn "nat rb" "manual_seed n r" m] d by simp
  then show ?thesis
    using Some d torch_cat_no_ValueError by (cases res) (auto simp: seeded_draw_def)
qed

lemma tensor_iadd_no_ValueError: "tensor_iadd x y \<noteq> Inl (ValueError m)"
  by (simp add: tensor_iadd_def)

lemma sigma_multiplier_requires_model:
  "sigma_multiplier env sigmas mdl mult = Inl (ValueError m)
   \<longleftrightarrow> ValueError m = requires_model \<and> (\<exists>sg. sigmas = Some sg \<and> sg \<noteq> [] \<and> mdl = None)"
  by (auto simp: sigma_multiplier_def requires_model_def Let_def split: option.splits)

lemma go_past_guard_no_requires_model:
  assumes "sigma_multiplier env (mul_by_sigmas_opt a) (model_opt a) (multiplier a) = Inr mult"
  shows "fst (NoisyLatentLikeNode_go env a r) \<noteq> Inl requires_model"
proof -
  obtain lo hi s sn where sb: "sigma_bounds (mul_by_sigmas_opt a) = (lo, hi, s, sn)"
    by (cases "sigma_bounds (mul_by_sigmas_opt a)") auto
  obtain res r1 where bs: "build_sampler env a (samples (latent a)) lo hi r = (res, r1)"
    by (cases "build_sampler env a (samples (latent a)) lo hi r") auto
  show ?thesis
  proof (cases res)
    case (Inl e)
    then show ?thesis
      using assms sb bs by (simp add: NoisyLatentLikeNode_go_def requires_model_def)
  next
    case ns: (Inr ns)
    obtain dr r2 where sd: "seeded_draw ns s sn (seed a) (repeat_batch a) r1 = (dr, r2)"
      by (cases "seeded_draw ns s sn (seed a) (repeat_batch a) r1") auto
    have dr: "dr \<noteq> Inl requires_model"
      using seeded_draw_no_ValueError [of ns s sn "seed a" "repeat_batch a" r1] sd
      by (simp add: requires_model_def)
    show ?thesis using assms sb bs ns sd dr tensor_iadd_no_ValueError
      by (auto simp: NoisyLatentLikeNode_go_def Let_def requires_model_def split: sum.splits)
  qed
qed

lemma go_empty_sigmas:
  "mul_by_sigmas_opt a = Some [] \<Longrightarrow>
   NoisyLatentLikeNode_go env a r = NoisyLatentLikeNode_go env (a\<lparr>mul_by_sigmas_opt := None\<rparr>) r"
  by (simp add: NoisyLatentLikeNode_go_def sigma_multiplier_def sigma_bounds_def
      build_sampler_def Let_def split: option.splits prod.splits sum.splits)

subsection \<open>The random state\<close>

text \<open>
  C5. For every call of \<^verbatim>\<open>NoisyLatentLikeNode.go\<close>, the process-wide tensor generator
  state observed right before the call is to be restored exactly when the call returns,
  for every \<^verbatim>\<open>repeat_batch\<close> and also when the noise generation inside the call
  raises. The node builds its sampler (lines 145 to 159) before it saves the state with
  \<^verbatim>\<open>torch.random.get_rng_state\<close> (line 160), outside the \<^verbatim>\<open>try\<close>: with a
  \<^verbatim>\<open>get_noise_sampler\<close> that draws from the default generator while it builds, the
  call returns its tensor and leaves the default generator in the state the build left,
  not in the state before the call. And \<^verbatim>\<open>torch.random.manual_seed\<close> seeds the
  generators of the accelerator devices too, which \<^verbatim>\<open>set_rng_state\<close> does not
  restore: after a call with seed \<open>5\<close> they are seeded with \<open>5\<close>.
\<close>

theorem torch_rng_not_restored_counterexample:
  "torch_rng example_rngs = Opaque 7
   \<and> fst (NoisyLatentLikeNode_go drawing_build_env example_args example_rngs)
       = Inr \<lparr>samples = example_tensor\<lparr>rows := [[5, 5], [5, 5], [5, 5], [5, 5]]\<rparr>,
              batch_index = None\<rparr>
   \<and> torch_rng (snd (NoisyLatentLikeNode_go drawing_build_env example_args example_rngs))
       = Opaque 99
   \<and> accel_rng example_rngs = Opaque 9
   \<and> accel_rng (snd (NoisyLatentLikeNode_go example_env example_args example_rngs)) = Seeded 5"
  by (simp add: example_args_def example_rngs_def NoisyLatentLikeNode_go_def
      sigma_multiplier_def sigma_bounds_def build_sampler_def drawing_build_env_def
      example_env_def seeded_draw_def manual_seed_def seed_sampler_def Let_def numeral_2_eq_2
      torch_cat_def example_tensor_def)

text \<open>
  C5, as the code has it: for every call of \<^verbatim>\<open>NoisyLatentLikeNode.go\<close>, the state of
  torch's default generator that the node saves once its sampler is built is the state
  of that generator when the call returns, for every \<^verbatim>\<open>repeat_batch\<close>, for samplers
  that advance the generator, and also when the noise generation inside the call raises
  (a call that raises before the sampler is built leaves the generator as it was). It is
  the state observed right before the call whenever building a sampler leaves the
  default generator as it found it.
\<close>

theorem go_restores_saved_torch_rng:
  "torch_rng (snd (NoisyLatentLikeNode_go env a r))
     = (case sigma_multiplier env (mul_by_sigmas_opt a) (model_opt a) (multiplier a) of
          Inl e \<Rightarrow> torch_rng r
        | Inr mult \<Rightarrow>
            torch_rng (snd (build_sampler env a (samples (latent a))
                              (fst (sigma_bounds (mul_by_sigmas_opt a)))
                              (fst (snd (sigma_bounds (mul_by_sigmas_opt a)))) r)))
   \<and> ((\<forall>c t lo hi sd cp nm r.
          torch_rng (snd (make_noise_sampler env c t lo hi sd cp nm r)) = torch_rng r)
        \<and> (\<forall>n t lo hi sd r.
          torch_rng (snd (get_noise_sampler env n t lo hi sd r)) = torch_rng r)
       \<longrightarrow> torch_rng (snd (NoisyLatentLikeNode_go env a r)) = torch_rng r)"
proof -
  have saved: "torch_rng (snd (NoisyLatentLikeNode_go env a r))
     = (case sigma_multiplier env (mul_by_sigmas_opt a) (model_opt a) (multiplier a) of
          Inl e \<Rightarrow> torch_rng r
        | Inr mult \<Rightarrow>
            torch_rng (snd (build_sampler env a (samples (latent a))
                              (fst (sigma_bounds (mul_by_sigmas_opt a)))
                              (fst (snd (sigma_bounds (mul_by_sigmas_opt a)))) r)))"
  proof (cases "sigma_multiplier env (mul_by_sigmas_opt a) (model_opt a) (multiplier a)")
    case (Inl e)
    then show ?thesis by (simp add: NoisyLatentLikeNode_go_def)
  next
    case mult: (Inr mult)
    obtain lo hi s sn where sb: "sigma_bounds (mul_by_sigmas_opt a) = (lo, hi, s, sn)"
      by (cases "sigma_bounds (mul_by_sigmas_opt a)") auto
    obtain res r1 where bs: "build_sampler env a (samples (latent a)) lo hi r = (res, r1)"
      by (cases "build_sampler env a (samples (latent a)) lo hi r") auto
    show ?thesis
    proof (cases res)
      case (Inl e)
      then show ?thesis using mult sb bs by (simp add: NoisyLatentLikeNode_go_def)
    next
      case (Inr ns)
      obtain dr r2 where sd: "seeded_draw ns s sn (seed a) (repeat_batch a) r1 = (dr, r2)"
        by (cases "seeded_draw ns s sn (seed a) (repeat_batch a) r1") auto
      show ?thesis using mult sb bs Inr sd
        by (simp add: NoisyLatentLikeNode_go_def Let_def split: sum.splits)
    qed
  qed
  have b: "torch_rng (snd (build_sampler env a t lo hi r)) = torch_rng r"
    if "\<forall>c t lo hi sd cp nm r.
          torch_rng (snd (make_noise_sampler env c t lo hi sd cp nm r)) = torch_rng r"
       "\<forall>n t lo hi sd r.
          torch_rng (snd (get_noise_sampler env n t lo hi sd r)) = torch_rng r"
    for t lo hi
    using that by (simp add: build_sampler_def split: option.splits)
  show ?thesis using saved b by (auto split: sum.splits)
qed

text \<open>
  At the example inputs: a call that draws two samples (each draw leaves the generator
  in another state), a call whose sampler raises, a call with \<^verbatim>\<open>repeat_batch = 0\<close>,
  whose concatenation of nothing raises, and a call whose sampler construction draws
  from the generator.
\<close>

theorem go_restores_saved_torch_rng_witness:
  "torch_rng (snd (NoisyLatentLikeNode_go example_env example_args example_rngs)) = Opaque 7
   \<and> torch_rng (snd (NoisyLatentLikeNode_go example_env
         (example_args\<lparr>custom_noise_opt := Some False\<rparr>) example_rngs)) = Opaque 7
   \<and> torch_rng (snd (NoisyLatentLikeNode_go example_env
         (example_args\<lparr>repeat_batch := 0\<rparr>) example_rngs)) = Opaque 7
   \<and> torch_rng (snd (get_noise_sampler drawing_build_env ''gaussian'' example_tensor
                          None None (Some 5) example_rngs)) = Opaque 99
   \<and> torch_rng (snd (NoisyLatentLikeNode_go drawing_build_env example_args example_rngs))
       = Opaque 99"
  using go_restores_saved_torch_rng [of example_env example_args example_rngs]
        go_restores_saved_torch_rng
          [of example_env "example_args\<lparr>custom_noise_opt := Some False\<rparr>" example_rngs]
        go_restores_saved_torch_rng
          [of example_env "example_args\<lparr>repeat_batch := 0\<rparr>" example_rngs]
        go_restores_saved_torch_rng [of drawing_build_env example_args example_rngs]
  by (simp add: example_env_def example_rngs_def drawing_build_env_def example_args_def
      sigma_multiplier_def sigma_bounds_def build_sampler_def)

subsection \<open>Sigmas without a model\<close>

text \<open>
  C6. \<^verbatim>\<open>NoisyLatentLikeNode.go\<close> is to raise the invalid-configuration error when a
  sigmas input is connected and no model is, and not otherwise. The guard of the code
  is \<^verbatim>\<open>sigmas is not None and len(sigmas) > 0\<close>: with a connected sigmas tensor of
  length \<open>0\<close> and no model, the call does not raise the error.
\<close>

theorem requires_model_counterexample:
  "mul_by_sigmas_opt (example_args\<lparr>mul_by_sigmas_opt := Some []\<rparr>) \<noteq> None
   \<and> model_opt (example_args\<lparr>mul_by_sigmas_opt := Some []\<rparr>) = None
   \<and> fst (NoisyLatentLikeNode_go example_env
            (example_args\<lparr>mul_by_sigmas_opt := Some []\<rparr>) example_rngs)
       = Inr \<lparr>samples = example_tensor\<lparr>rows := [[5, 5], [5, 5], [5, 5], [5, 5]]\<rparr>,
              batch_index = None\<rparr>"
  by (simp add: example_args_def NoisyLatentLikeNode_go_def sigma_multiplier_def
      sigma_bounds_def build_sampler_def example_env_def seeded_draw_def seed_sampler_def
      Let_def numeral_2_eq_2 torch_cat_def example_tensor_def)

text \<open>
  C6, as the code has it: the call raises the invalid-configuration error exactly when a
  sigmas input with at least one element is connected and no model is. It does not raise
  it when a model is connected, when no sigmas are connected, or when the connected
  sigmas are empty.
\<close>

theorem requires_model_iff:
  "fst (NoisyLatentLikeNode_go env a r) = Inl requires_model
   \<longleftrightarrow> (\<exists>sg. mul_by_sigmas_opt a = Some sg \<and> sg \<noteq> [] \<and> model_opt a = None)"
proof (cases "sigma_multiplier env (mul_by_sigmas_opt a) (model_opt a) (multiplier a)")
  case (Inl e)
  then have "fst (NoisyLatentLikeNode_go env a r) = Inl e"
    by (simp add: NoisyLatentLikeNode_go_def)
  then show ?thesis
    using Inl sigma_multiplier_requires_model
            [of env "mul_by_sigmas_opt a" "model_opt a" "multiplier a"]
    by (auto simp: requires_model_def)
next
  case (Inr mult)
  have "\<not> (\<exists>sg. mul_by_sigmas_opt a = Some sg \<and> sg \<noteq> [] \<and> model_opt a = None)"
    using Inr by (auto simp: sigma_multiplier_def split: if_splits)
  then show ?thesis using go_past_guard_no_requires_model [OF Inr, of r] by simp
qed

theorem requires_model_iff_witness:
  "fst (NoisyLatentLikeNode_go example_env
          (example_args\<lparr>mul_by_sigmas_opt := Some [2, 1]\<rparr>) example_rngs) = Inl requires_model
   \<and> fst (NoisyLatentLikeNode_go example_env
          (example_args\<lparr>mul_by_sigmas_opt := Some [2, 1], model_opt := Some (Wrapper (Root 4))\<rparr>)
          example_rngs) \<noteq> Inl requires_model
   \<and> fst (NoisyLatentLikeNode_go example_env example_args example_rngs) \<noteq> Inl requires_model"
  using requires_model_iff
          [of example_env "example_args\<lparr>mul_by_sigmas_opt := Some [2, 1]\<rparr>" example_rngs]
        requires_model_iff
          [of example_env
              "example_args\<lparr>mul_by_sigmas_opt := Some [2, 1], model_opt := Some (Wrapper (Root 4))\<rparr>"
              example_rngs]
        requires_model_iff [of example_env example_args example_rngs]
  by (simp add: example_args_def)

text \<open>
  C10. Called with a connected sigmas tensor of length zero and no model,
  \<^verbatim>\<open>NoisyLatentLikeNode.go\<close> does not raise the invalid-configuration error: empty
  sigmas are treated exactly as if no sigmas were connected. The multiplier is not
  scaled, the sampler is built without sigma bounds, and the whole call, its result and
  the random state it leaves, is the call without sigmas.
\<close>

theorem empty_sigmas_as_unconnected:
  assumes "mul_by_sigmas_opt a = Some []" and "model_opt a = None"
  shows "fst (NoisyLatentLikeNode_go env a r) \<noteq> Inl requires_model
       \<and> sigma_multiplier env (mul_by_sigmas_opt a) (model_opt a) (multiplier a)
           = Inr (multiplier a)
       \<and> sigma_bounds (mul_by_sigmas_opt a) = (None, None, None, None)
       \<and> NoisyLatentLikeNode_go env a r
           = NoisyLatentLikeNode_go env (a\<lparr>mul_by_sigmas_opt := None\<rparr>) r"
proof -
  have m: "sigma_multiplier env (mul_by_sigmas_opt a) (model_opt a) (multiplier a)
             = Inr (multiplier a)"
    using assms by (simp add: sigma_multiplier_def)
  have b: "sigma_bounds (mul_by_sigmas_opt a) = (None, None, None, None)"
    using assms by (simp add: sigma_bounds_def)
  show ?thesis
    using m b go_past_guard_no_requires_model [OF m, of r] go_empty_sigmas [of a env r] assms
    by simp
qed

theorem empty_sigmas_as_unconnected_witness:
  "fst (NoisyLatentLikeNode_go example_env
          (example_args\<lparr>mul_by_sigmas_opt := Some []\<rparr>) example_rngs) \<noteq> Inl requires_model
   \<and> NoisyLatentLikeNode_go example_env
          (example_args\<lparr>mul_by_sigmas_opt := Some []\<rparr>) example_rngs
       = NoisyLatentLikeNode_go example_env example_args example_rngs"
proof -
  have h1: "mul_by_sigmas_opt (example_args\<lparr>mul_by_sigmas_opt := Some []\<rparr>) = Some []"
    by simp
  have h2: "model_opt (example_args\<lparr>mul_by_sigmas_opt := Some []\<rparr>) = None"
    by (simp add: example_args_def)
  have e: "(example_args\<lparr>mul_by_sigmas_opt := Some []\<rparr>)\<lparr>mul_by_sigmas_opt := None\<rparr>
             = example_args"
    by (simp add: example_args_def)
  show ?thesis
    using empty_sigmas_as_unconnected [OF h1 h2, of example_env example_rngs] e by auto
qed

section \<open>Properties of the adapter \<^verbatim>\<open>CustomNOISE\<close>\<close>

subsection \<open>A multiplier of zero\<close>

lemma torch_zeros_like:
  "shape (torch_zeros t) = shape t \<and> dtype (torch_zeros t) = dtype t
   \<and> layout (torch_zeros t) = layout t \<and> device (torch_zeros t) = CPU
   \<and> list_all (list_all (\<lambda>x. x = 0)) (rows (torch_zeros t))"
  by (simp add: torch_zeros_def shape_def list_all_iff)

text \<open>
  C3. With a multiplier of exactly \<open>0\<close>, \<^verbatim>\<open>CustomNOISE.generate_noise\<close> returns a
  tensor of zeros with the shape, the element type and the layout of the target latent,
  on the CPU, without requesting any noise sample, and it still reseeds the tensor
  generator and Python's generator from its seed before it returns. This holds with and
  without batch indices on the latent. Seeding the tensor generator seeds the default
  generator and those of the accelerator devices.
\<close>

theorem generate_noise_zero_multiplier:
  assumes "self_multiplier self = 0"
  shows "\<exists>out. generate_noise env self lat (r, tr)
             = (Inr out,
                (\<lparr>torch_rng = Seeded (self_seed self), accel_rng = Seeded (self_seed self),
                  py_rng = Seeded (self_seed self)\<rparr>,
                 tr))
           \<and> shape out = shape (samples lat) \<and> dtype out = dtype (samples lat)
           \<and> layout out = layout (samples lat) \<and> device out = CPU
           \<and> list_all (list_all (\<lambda>x. x = 0)) (rows out)"
  using assms torch_zeros_like [of "samples lat"]
  by (cases r) (simp add: generate_noise_def manual_seed_def)

theorem generate_noise_zero_multiplier_witness:
  "generate_noise example_env (example_adapter\<lparr>self_multiplier := 0\<rparr>)
      \<lparr>samples = example_tensor, batch_index = Some [0, 0, 1]\<rparr> (example_rngs, [])
   = (Inr (example_tensor\<lparr>rows := [[0, 0], [0, 0]]\<rparr>),
      (\<lparr>torch_rng = Seeded 10, accel_rng = Seeded 10, py_rng = Seeded 10\<rparr>, []))"
  using generate_noise_zero_multiplier
          [of "example_adapter\<lparr>self_multiplier := 0\<rparr>" example_env
              "\<lparr>samples = example_tensor, batch_index = Some [0, 0, 1]\<rparr>" example_rngs "[]"]
  by (simp add: generate_noise_def manual_seed_def torch_zeros_def example_adapter_def
      example_tensor_def example_rngs_def numeral_2_eq_2)

subsection \<open>Batch indices\<close>

lemma sample_noise_trace:
  "snd (snd (sample_noise env self t sd (r, tr))) = tr @ [(sd, t)]"
  by (simp add: sample_noise_def Let_def split: prod.splits sum.splits)

lemma sample_range_trace:
  "sample_range env self lat u idxs s = (Inr res, s') \<Longrightarrow>
   snd s' = snd s @ map (\<lambda>idx. (self_seed self + int idx,
                               select_example lat (idx mod length (rows lat)))) idxs"
proof (induction idxs arbitrary: s res)
  case Nil
  then show ?case by simp
next
  case (Cons idx idxs)
  let ?B = "length (rows lat)"
  from Cons.prems have B: "?B \<noteq> 0" by (auto simp: Let_def split: if_splits)
  obtain x s1 where sn: "sample_noise env self (select_example lat (idx mod ?B)) (self_seed self + int idx) s = (x, s1)"
    by (cases "sample_noise env self (select_example lat (idx mod ?B)) (self_seed self + int idx) s") auto
  from Cons.prems B sn obtain noise where x: "x = Inr noise"
    by (cases x) (auto simp: Let_def)
  obtain y s2 where sr: "sample_range env self lat u idxs s1 = (y, s2)"
    by (cases "sample_range env self lat u idxs s1") auto
  from Cons.prems B sn x sr obtain rest where y: "y = Inr rest" and s2: "s2 = s'"
    by (cases y) (auto simp: Let_def)
  have t1: "snd s1 = snd s @ [(self_seed self + int idx, select_example lat (idx mod ?B))]"
    using sample_noise_trace [of env self "select_example lat (idx mod ?B)" "self_seed self + int idx" "fst s" "snd s"] sn
    by simp
  have "snd s' = snd s1 @ map (\<lambda>idx. (self_seed self + int idx, select_example lat (idx mod ?B))) idxs"
    using Cons.IH [of s1 rest] sr y s2 by simp
  then show ?case using t1 by simp
qed

lemma gather_map: "gather result is = Inr ts \<Longrightarrow> ts = map ((!) result) is"
  by (induction "is" arbitrary: ts) (auto split: if_splits sum.splits)

lemma sorted_last_Max: "sorted xs \<Longrightarrow> xs \<noteq> [] \<Longrightarrow> last xs = Max (set (xs::int list))"
proof (induction xs)
  case Nil
  then show ?case by simp
next
  case (Cons x xs)
  show ?case
  proof (cases "xs = []")
    case True
    then show ?thesis by simp
  next
    case False
    have le: "x \<le> Max (set xs)"
    proof -
      from False obtain y where y: "y \<in> set xs" by (cases xs) auto
      then have "x \<le> y" using Cons.prems by auto
      also have "y \<le> Max (set xs)" using y by simp
      finally show ?thesis .
    qed
    have "last (x # xs) = Max (set xs)"
      using Cons False by simp
    also have "\<dots> = Max (set (x # xs))"
      using le False by (simp add: max_def)
    finally show ?thesis .
  qed
qed

lemma np_unique_empty: "np_unique inds = [] \<longleftrightarrow> inds = []"
proof -
  have "set (np_unique inds) = set inds" by (simp add: np_unique_def)
  then show ?thesis by (metis set_empty)
qed

lemma np_unique_last: "inds \<noteq> [] \<Longrightarrow> last (np_unique inds) = Max (set inds)"
  using sorted_last_Max [of "np_unique inds"] np_unique_empty [of inds]
  by (simp add: np_unique_def)

lemma concat_singletons_nth:
  "list_all (\<lambda>c. length (rows c) = 1) cs \<Longrightarrow> p < length cs \<Longrightarrow>
   length (concat (map rows cs)) = length cs \<and> concat (map rows cs) ! p = hd (rows (cs ! p))"
proof (induction cs arbitrary: p)
  case Nil
  then show ?case by simp
next
  case (Cons c cs)
  from Cons.prems obtain x where c: "rows c = [x]"
    by (cases "rows c") auto
  have len: "length (concat (map rows cs)) = length cs"
    using Cons.prems(1) by (induction cs) auto
  show ?case
  proof (cases p)
    case 0
    then show ?thesis using c len by simp
  next
    case (Suc p')
    then show ?thesis using Cons c len by simp
  qed
qed

lemma torch_cat_rows: "torch_cat ts = Inr out \<Longrightarrow> rows out = concat (map rows ts)"
  by (auto simp: torch_cat_def split: list.splits if_splits)

lemma sample_noise_ok:
  assumes "samples_like_reference env self"
  shows "\<exists>noise s'. sample_noise env self t sd s = (Inr noise, s')
           \<and> inner_shape noise = inner_shape t \<and> length (rows noise) = length (rows t)"
proof -
  obtain r tr where s: "s = (r, tr)" by (cases s)
  from assms obtain ns r1 u r2 where
    mk: "make_noise_sampler env (self_custom_noise self) t None None (Some sd)
          (Some (self_cpu_noise self)) (Some (self_normalize self)) r = (Inr ns, r1)"
    and ns: "ns None None r1 = (Inr u, r2)"
    and u: "layout u = layout t" "inner_shape u = inner_shape t" "length (rows u) = length (rows t)"
    unfolding samples_like_reference_def by blast
  show ?thesis using s mk ns u by (simp add: sample_noise_def Let_def)
qed

lemma sample_range_ok:
  assumes w: "samples_like_reference env self"
      and B: "rows lat \<noteq> []"
  shows "\<exists>res s'. sample_range env self lat u idxs s = (Inr res, s')
           \<and> length res = length (filter (\<lambda>i. int i \<in> set u) idxs)
           \<and> list_all (\<lambda>c. inner_shape c = inner_shape lat \<and> length (rows c) = 1) res"
proof (induction idxs arbitrary: s)
  case Nil
  show ?case by simp
next
  case (Cons idx idxs)
  let ?t = "select_example lat (idx mod length (rows lat))"
  obtain noise s1 where sn: "sample_noise env self ?t (self_seed self + int idx) s = (Inr noise, s1)"
      and n: "inner_shape noise = inner_shape ?t" "length (rows noise) = length (rows ?t)"
    using sample_noise_ok [OF w, of ?t "self_seed self + int idx" s] by blast
  obtain res s2 where sr: "sample_range env self lat u idxs s1 = (Inr res, s2)"
      and l: "length res = length (filter (\<lambda>i. int i \<in> set u) idxs)"
      and a: "list_all (\<lambda>c. inner_shape c = inner_shape lat \<and> length (rows c) = 1) res"
    using Cons [of s1] by blast
  show ?case using B sn n sr l a by (simp add: Let_def select_example_def)
qed

lemma index_of_less: "x \<in> set us \<Longrightarrow> index_of us x < length us"
  unfolding index_of_def by (induction us) auto

lemma gather_ok:
  "list_all (\<lambda>i. i < length result) is \<Longrightarrow> gather result is = Inr (map ((!) result) is)"
  by (induction "is") auto

lemma count_present:
  assumes d: "distinct u" and nn: "\<forall>x\<in>set u. 0 \<le> x \<and> x < int n"
  shows "length (filter (\<lambda>i. int i \<in> set u) [0 ..< n]) = length u"
proof -
  have "length (filter (\<lambda>i. int i \<in> set u) [0 ..< n]) = card {i. i < n \<and> int i \<in> set u}"
    using distinct_card [of "filter (\<lambda>i. int i \<in> set u) [0 ..< n]"]
    by (simp add: conj_commute)
  also have "{i. i < n \<and> int i \<in> set u} = nat ` set u"
  proof (intro set_eqI iffI)
    fix i assume "i \<in> {i. i < n \<and> int i \<in> set u}"
    then have "int i \<in> set u" by simp
    then have "nat (int i) \<in> nat ` set u" by (rule imageI)
    then show "i \<in> nat ` set u" by simp
  next
    fix i assume "i \<in> nat ` set u"
    then obtain x where x: "x \<in> set u" "i = nat x" by auto
    then show "i \<in> {i. i < n \<and> int i \<in> set u}" using nn by auto
  qed
  also have "card (nat ` set u) = card (set u)"
  proof (rule card_image)
    show "inj_on nat (set u)"
    proof (rule inj_onI)
      fix x y assume "x \<in> set u" "y \<in> set u" "nat x = nat y"
      moreover from this nn have "0 \<le> x" "0 \<le> y" by auto
      ultimately show "x = y" by simp
    qed
  qed
  also have "\<dots> = length u" using d by (rule distinct_card)
  finally show ?thesis .
qed

lemma torch_cat_ok:
  "ts \<noteq> [] \<Longrightarrow> list_all (\<lambda>c. inner_shape c = sh) ts \<Longrightarrow> \<exists>out. torch_cat ts = Inr out"
  by (cases ts) (auto simp: torch_cat_def list_all_iff)

lemma generate_noise_batch_trace_chunks:
  assumes m: "self_multiplier self \<noteq> 0"
      and b: "batch_index lat = Some inds"
      and g: "generate_noise env self lat (r, tr) = (Inr out, s')"
  shows "snd s' = tr @ map (\<lambda>idx. (self_seed self + int idx,
                select_example (samples lat) (idx mod length (rows (samples lat)))))
              [0 ..< nat (Max (set inds) + 1)]"
    and "\<exists>chunks. torch_cat chunks = Inr out \<and> length chunks = length inds
          \<and> (\<forall>p<length inds. \<forall>q<length inds. inds ! p = inds ! q \<longrightarrow> chunks ! p = chunks ! q)"
proof -
  let ?s1 = "((manual_seed (self_seed self) r)\<lparr>py_rng := Seeded (self_seed self)\<rparr>, tr)"
  let ?u = "np_unique inds"
  from g m b have ne: "?u \<noteq> []"
    by (auto simp: generate_noise_def Let_def split: if_splits)
  then have ine: "inds \<noteq> []" by (simp add: np_unique_empty)
  obtain x s2 where sr: "sample_range env self (samples lat) ?u [0 ..< nat (last ?u + 1)] ?s1 = (x, s2)"
    by (cases "sample_range env self (samples lat) ?u [0 ..< nat (last ?u + 1)] ?s1") auto
  from g m b ne sr obtain result where x: "x = Inr result"
    by (cases x) (auto simp: generate_noise_def Let_def)
  from g m b ne sr x obtain ts where ga: "gather result (np_inverse inds) = Inr ts"
      and cat: "torch_cat ts = Inr out" and s2: "s2 = s'"
    by (cases "gather result (np_inverse inds)") (auto simp: generate_noise_def Let_def)
  have "snd s2 = tr @ map (\<lambda>idx. (self_seed self + int idx,
                select_example (samples lat) (idx mod length (rows (samples lat)))))
              [0 ..< nat (last ?u + 1)]"
    using sample_range_trace [of env self "samples lat" ?u _ ?s1 result s2] sr x by simp
  then show "snd s' = tr @ map (\<lambda>idx. (self_seed self + int idx,
                select_example (samples lat) (idx mod length (rows (samples lat)))))
              [0 ..< nat (Max (set inds) + 1)]"
    using s2 np_unique_last [OF ine] by simp
  have ts: "ts = map ((!) result) (np_inverse inds)" using gather_map [OF ga] .
  have "length ts = length inds" using ts by (simp add: np_inverse_def)
  moreover have "\<forall>p<length inds. \<forall>q<length inds. inds ! p = inds ! q \<longrightarrow> ts ! p = ts ! q"
    using ts by (simp add: np_inverse_def)
  ultimately show "\<exists>chunks. torch_cat chunks = Inr out \<and> length chunks = length inds
          \<and> (\<forall>p<length inds. \<forall>q<length inds. inds ! p = inds ! q \<longrightarrow> chunks ! p = chunks ! q)"
    using cat by blast
qed

lemma generate_noise_batch_returns:
  assumes m: "self_multiplier self \<noteq> 0"
      and b: "batch_index lat = Some inds"
      and w: "samples_like_reference env self"
      and ine: "inds \<noteq> []"
      and nn: "list_all (\<lambda>i. 0 \<le> i) inds"
      and B: "rows (samples lat) \<noteq> []"
  shows "\<exists>out s'. generate_noise env self lat (r, tr) = (Inr out, s')
           \<and> length (rows out) = length inds
           \<and> (\<forall>p<length inds. \<forall>q<length inds. inds ! p = inds ! q \<longrightarrow> rows out ! p = rows out ! q)"
proof -
  let ?s1 = "((manual_seed (self_seed self) r)\<lparr>py_rng := Seeded (self_seed self)\<rparr>, tr)"
  let ?u = "np_unique inds"
  let ?n = "nat (last ?u + 1)"
  have ne: "?u \<noteq> []" using ine by (simp add: np_unique_empty)
  have su: "set ?u = set inds" by (simp add: np_unique_def)
  have du: "distinct ?u" by (simp add: np_unique_def)
  have lastu: "last ?u = Max (set inds)" using np_unique_last [OF ine] .
  have bound: "\<forall>x\<in>set ?u. 0 \<le> x \<and> x < int ?n"
  proof
    fix x assume "x \<in> set ?u"
    then have x: "x \<in> set inds" using su by simp
    then have "0 \<le> x" using nn by (simp add: list_all_iff)
    moreover have "x \<le> Max (set inds)" using x by simp
    ultimately show "0 \<le> x \<and> x < int ?n" using lastu by simp
  qed
  obtain res s2 where sr: "sample_range env self (samples lat) ?u [0 ..< ?n] ?s1 = (Inr res, s2)"
      and l: "length res = length (filter (\<lambda>i. int i \<in> set ?u) [0 ..< ?n])"
      and a: "list_all (\<lambda>c. inner_shape c = inner_shape (samples lat) \<and> length (rows c) = 1) res"
    using sample_range_ok [OF w B, of ?u "[0 ..< ?n]" ?s1] by blast
  have lres: "length res = length ?u" using l count_present [OF du bound] by simp
  have inv: "list_all (\<lambda>i. i < length res) (np_inverse inds)"
    using lres su index_of_less [of _ ?u] by (simp add: np_inverse_def list_all_iff)
  let ?ts = "map ((!) res) (np_inverse inds)"
  have ga: "gather res (np_inverse inds) = Inr ?ts" using gather_ok [OF inv] .
  have tsne: "?ts \<noteq> []" using ine by (simp add: np_inverse_def)
  have tsall: "list_all (\<lambda>c. inner_shape c = inner_shape (samples lat) \<and> length (rows c) = 1) ?ts"
    using a inv by (auto simp: list_all_iff)
  then have sh: "list_all (\<lambda>c. inner_shape c = inner_shape (samples lat)) ?ts"
    and one: "list_all (\<lambda>c. length (rows c) = 1) ?ts"
    by (auto simp: list_all_iff)
  obtain out where cat: "torch_cat ?ts = Inr out" using torch_cat_ok [OF tsne sh] by blast
  have g: "generate_noise env self lat (r, tr) = (Inr out, s2)"
    using m b ne sr ga cat by (simp add: generate_noise_def Let_def)
  have ro: "rows out = concat (map rows ?ts)" using torch_cat_rows [OF cat] .
  have lts: "length ?ts = length inds" by (simp add: np_inverse_def)
  have len: "length (rows out) = length inds"
    using concat_singletons_nth [OF one, of 0] tsne lts ro by simp
  have same: "\<forall>p<length inds. \<forall>q<length inds. inds ! p = inds ! q \<longrightarrow> rows out ! p = rows out ! q"
  proof (intro allI impI)
    fix p q assume p: "p < length inds" and q: "q < length inds" and e: "inds ! p = inds ! q"
    have "rows out ! p = hd (rows (?ts ! p))"
      using concat_singletons_nth [OF one, of p] p lts ro by simp
    moreover have "rows out ! q = hd (rows (?ts ! q))"
      using concat_singletons_nth [OF one, of q] q lts ro by simp
    moreover have "?ts ! p = ?ts ! q" using p q e by (simp add: np_inverse_def)
    ultimately show "rows out ! p = rows out ! q" by simp
  qed
  show ?thesis using g len same by blast
qed

lemma sample_noise_draws:
  assumes "sample_noise env self t sd s = (Inr noise, s')"
  shows "draws_sample env self t sd (fst s) noise (fst s')"
proof -
  obtain r tr where s: "s = (r, tr)" by (cases s)
  obtain x r1 where mk: "make_noise_sampler env (self_custom_noise self) t None None (Some sd)
          (Some (self_cpu_noise self)) (Some (self_normalize self)) r = (x, r1)"
    by (cases "make_noise_sampler env (self_custom_noise self) t None None (Some sd)
          (Some (self_cpu_noise self)) (Some (self_normalize self)) r") auto
  from assms s mk obtain ns where x: "x = Inr ns"
    by (cases x) (auto simp: sample_noise_def Let_def)
  obtain y r2 where dr: "ns None None r1 = (y, r2)" by (cases "ns None None r1") auto
  from assms s mk x dr obtain drawn where y: "y = Inr drawn"
    by (cases y) (auto simp: sample_noise_def Let_def)
  from assms s mk x dr y have "finish_sample self t drawn = Inr noise \<and> fst s' = r2"
    by (auto simp: sample_noise_def finish_sample_def Let_def split: if_splits)
  then show ?thesis using s mk x dr y unfolding draws_sample_def by auto
qed

lemma sample_range_draws:
  "sample_range env self lat u idxs s = (Inr res, s') \<Longrightarrow>
   \<exists>drawn rs. length drawn = length idxs \<and> length rs = Suc (length idxs)
     \<and> rs ! 0 = fst s \<and> rs ! length idxs = fst s'
     \<and> (\<forall>k<length idxs.
           draws_sample env self (select_example lat (idxs ! k mod length (rows lat)))
             (self_seed self + int (idxs ! k)) (rs ! k) (drawn ! k) (rs ! Suc k))
     \<and> res = map snd (filter (\<lambda>(idx, d). int idx \<in> set u) (zip idxs drawn))"
proof (induction idxs arbitrary: s res)
  case Nil
  then show ?case by (intro exI [of _ "[]"] exI [of _ "[fst s]"]) auto
next
  case (Cons idx idxs)
  let ?B = "length (rows lat)"
  let ?t = "select_example lat (idx mod ?B)"
  from Cons.prems have B: "?B \<noteq> 0" by (auto simp: Let_def split: if_splits)
  obtain x s1 where sn: "sample_noise env self ?t (self_seed self + int idx) s = (x, s1)"
    by (cases "sample_noise env self ?t (self_seed self + int idx) s") auto
  from Cons.prems B sn obtain noise where x: "x = Inr noise"
    by (cases x) (auto simp: Let_def)
  obtain y s2 where sr: "sample_range env self lat u idxs s1 = (y, s2)"
    by (cases "sample_range env self lat u idxs s1") auto
  from Cons.prems B sn x sr obtain rest where y: "y = Inr rest" and s2: "s2 = s'"
      and res: "res = (if int idx \<in> set u then noise # rest else rest)"
    by (cases y) (auto simp: Let_def)
  from Cons.IH [of s1 rest] sr y s2 obtain drawn rs where
    ih: "length drawn = length idxs" "length rs = Suc (length idxs)"
        "rs ! 0 = fst s1" "rs ! length idxs = fst s'"
        "\<forall>k<length idxs.
           draws_sample env self (select_example lat (idxs ! k mod ?B))
             (self_seed self + int (idxs ! k)) (rs ! k) (drawn ! k) (rs ! Suc k)"
        "rest = map snd (filter (\<lambda>(idx, d). int idx \<in> set u) (zip idxs drawn))"
    by auto
  have d0: "draws_sample env self ?t (self_seed self + int idx) (fst s) noise (fst s1)"
    using sample_noise_draws sn x by blast
  let ?drawn = "noise # drawn" and ?rs = "fst s # rs"
  have steps: "\<forall>k<length (idx # idxs).
           draws_sample env self (select_example lat ((idx # idxs) ! k mod ?B))
             (self_seed self + int ((idx # idxs) ! k)) (?rs ! k) (?drawn ! k) (?rs ! Suc k)"
  proof (intro allI impI)
    fix k assume k: "k < length (idx # idxs)"
    show "draws_sample env self (select_example lat ((idx # idxs) ! k mod ?B))
             (self_seed self + int ((idx # idxs) ! k)) (?rs ! k) (?drawn ! k) (?rs ! Suc k)"
    proof (cases k)
      case 0
      then show ?thesis using d0 ih(3) by simp
    next
      case (Suc k')
      then show ?thesis using ih(5) k by simp
    qed
  qed
  have "length ?drawn = length (idx # idxs) \<and> length ?rs = Suc (length (idx # idxs))
     \<and> ?rs ! 0 = fst s \<and> ?rs ! length (idx # idxs) = fst s'
     \<and> res = map snd (filter (\<lambda>(idx, d). int idx \<in> set u) (zip (idx # idxs) ?drawn))"
    using ih res by simp
  then show ?case using steps by blast
qed

lemma zip_upt_filter:
  "length xs = n \<Longrightarrow>
   map snd (filter (\<lambda>(i, d). P i) (zip [0 ..< n] xs)) = map ((!) xs) (filter P [0 ..< n])"
proof -
  assume n: "length xs = n"
  have z: "zip [0 ..< n] xs = map (\<lambda>i. (i, xs ! i)) [0 ..< n]"
    using n by (intro nth_equalityI) auto
  show ?thesis unfolding z by (simp add: filter_map comp_def)
qed

lemma gather_bound:
  "gather result is = Inr ts \<Longrightarrow> list_all (\<lambda>i. i < length result) is"
  by (induction "is" arbitrary: ts) (auto split: if_splits sum.splits)

lemma takeWhile_last_distinct:
  "distinct us \<Longrightarrow> us \<noteq> [] \<Longrightarrow> takeWhile (\<lambda>y. y \<noteq> last us) us = butlast us"
proof (induction us)
  case Nil
  then show ?case by simp
next
  case (Cons a us)
  show ?case
  proof (cases "us = []")
    case True
    then show ?thesis by simp
  next
    case False
    then have "last us \<in> set us" by simp
    then have "a \<noteq> last us" using Cons.prems by auto
    then show ?thesis using Cons False by simp
  qed
qed

lemma index_of_last:
  "distinct us \<Longrightarrow> us \<noteq> [] \<Longrightarrow> index_of us (last us) = length us - 1"
  by (simp add: index_of_def takeWhile_last_distinct)

lemma index_of_nth: "x \<in> set us \<Longrightarrow> us ! index_of us x = x"
  unfolding index_of_def by (induction us) auto

lemma kept_indices:
  assumes d: "distinct u" and so: "sorted u" and b: "\<forall>x\<in>set u. 0 \<le> x \<and> x < int n"
  shows "filter (\<lambda>i. int i \<in> set u) [0 ..< n] = map nat (u::int list)"
proof (rule sorted_distinct_set_unique)
  show "sorted (filter (\<lambda>i. int i \<in> set u) [0 ..< n])" by (simp add: sorted_wrt_filter)
  show "distinct (filter (\<lambda>i. int i \<in> set u) [0 ..< n])" by simp
  show "sorted (map nat u)"
    using so by (simp add: sorted_map sorted_wrt_mono_rel [of u "(\<le>)"])
  show "distinct (map nat u)"
  proof (simp add: distinct_map d, rule inj_onI)
    fix x y assume "x \<in> set u" "y \<in> set u" "nat x = nat y"
    moreover from this b have "0 \<le> x" "0 \<le> y" by auto
    ultimately show "x = y" by simp
  qed
  show "set (filter (\<lambda>i. int i \<in> set u) [0 ..< n]) = set (map nat u)"
  proof (intro set_eqI iffI)
    fix i assume "i \<in> set (filter (\<lambda>i. int i \<in> set u) [0 ..< n])"
    then have "int i \<in> set u" by simp
    then have "nat (int i) \<in> nat ` set u" by (rule imageI)
    then show "i \<in> set (map nat u)" by simp
  next
    fix i assume "i \<in> set (map nat u)"
    then obtain x where x: "x \<in> set u" "i = nat x" by auto
    then show "i \<in> set (filter (\<lambda>i. int i \<in> set u) [0 ..< n])" using b by auto
  qed
qed

lemma kept_fewer_with_negative:
  assumes d: "distinct (u::int list)" and neg: "\<exists>x\<in>set u. x < 0"
  shows "length (filter (\<lambda>i. int i \<in> set u) [0 ..< n]) < length u"
proof -
  let ?S = "{i. i < n \<and> int i \<in> set u}"
  have "length (filter (\<lambda>i. int i \<in> set u) [0 ..< n]) = card ?S"
    using distinct_card [of "filter (\<lambda>i. int i \<in> set u) [0 ..< n]"]
    by (simp add: conj_commute)
  also have "card ?S = card (int ` ?S)"
    by (simp add: card_image)
  also have "int ` ?S \<subset> set u"
  proof
    show "int ` ?S \<subseteq> set u" by auto
    from neg obtain x where "x \<in> set u" "x < 0" by blast
    then have "x \<notin> int ` ?S" by auto
    then show "int ` ?S \<noteq> set u" using \<open>x \<in> set u\<close> by blast
  qed
  then have "card (int ` ?S) < card (set u)" by (simp add: psubset_card_mono)
  also have "card (set u) = length u" using d by (rule distinct_card)
  finally show ?thesis .
qed

lemma generate_noise_batch_samples:
  assumes m: "self_multiplier self \<noteq> 0"
      and b: "batch_index lat = Some inds"
      and g: "generate_noise env self lat (r, tr) = (Inr out, s')"
  shows "list_all (\<lambda>i. 0 \<le> i) inds
       \<and> (\<exists>drawn rs.
            length drawn = nat (Max (set inds) + 1)
          \<and> length rs = Suc (nat (Max (set inds) + 1))
          \<and> rs ! 0 = (manual_seed (self_seed self) r)\<lparr>py_rng := Seeded (self_seed self)\<rparr>
          \<and> rs ! nat (Max (set inds) + 1) = fst s'
          \<and> (\<forall>k<nat (Max (set inds) + 1).
                draws_sample env self
                  (select_example (samples lat) (k mod length (rows (samples lat))))
                  (self_seed self + int k) (rs ! k) (drawn ! k) (rs ! Suc k))
          \<and> torch_cat (map (\<lambda>i. drawn ! nat i) inds) = Inr out)"
proof -
  let ?s1 = "((manual_seed (self_seed self) r)\<lparr>py_rng := Seeded (self_seed self)\<rparr>, tr)"
  let ?u = "np_unique inds"
  let ?n = "nat (last ?u + 1)"
  let ?kept = "filter (\<lambda>i. int i \<in> set ?u) [0 ..< ?n]"
  from g m b have ne: "?u \<noteq> []"
    by (auto simp: generate_noise_def Let_def split: if_splits)
  then have ine: "inds \<noteq> []" by (simp add: np_unique_empty)
  have su: "set ?u = set inds" by (simp add: np_unique_def)
  have du: "distinct ?u" by (simp add: np_unique_def)
  have so: "sorted ?u" by (simp add: np_unique_def)
  have lastu: "last ?u = Max (set inds)" using np_unique_last [OF ine] .
  obtain x s2 where sr: "sample_range env self (samples lat) ?u [0 ..< ?n] ?s1 = (x, s2)"
    by (cases "sample_range env self (samples lat) ?u [0 ..< ?n] ?s1") auto
  from g m b ne sr obtain result where x: "x = Inr result"
    by (cases x) (auto simp: generate_noise_def Let_def)
  from g m b ne sr x obtain ts where ga: "gather result (np_inverse inds) = Inr ts"
      and cat: "torch_cat ts = Inr out" and s2: "s2 = s'"
    by (cases "gather result (np_inverse inds)") (auto simp: generate_noise_def Let_def)
  from sample_range_draws [of env self "samples lat" ?u "[0 ..< ?n]" ?s1 result s2] sr x
  obtain drawn rs where
    dr: "length drawn = ?n" "length rs = Suc ?n" "rs ! 0 = fst ?s1" "rs ! ?n = fst s2"
        "\<forall>k<?n. draws_sample env self
                  (select_example (samples lat) ([0 ..< ?n] ! k mod length (rows (samples lat))))
                  (self_seed self + int ([0 ..< ?n] ! k)) (rs ! k) (drawn ! k) (rs ! Suc k)"
        "result = map snd (filter (\<lambda>(idx, d). int idx \<in> set ?u) (zip [0 ..< ?n] drawn))"
    by auto
  have res: "result = map ((!) drawn) ?kept"
    using dr(6) zip_upt_filter [OF dr(1), of "\<lambda>i. int i \<in> set ?u"] by simp
  have steps: "\<forall>k<?n. draws_sample env self
                  (select_example (samples lat) (k mod length (rows (samples lat))))
                  (self_seed self + int k) (rs ! k) (drawn ! k) (rs ! Suc k)"
    using dr(5) by simp
  have inv: "list_all (\<lambda>i. i < length result) (np_inverse inds)"
    using gather_bound [OF ga] .
  have nn: "list_all (\<lambda>i. 0 \<le> i) inds"
  proof (rule ccontr)
    assume "\<not> list_all (\<lambda>i. 0 \<le> i) inds"
    then obtain x where "x \<in> set inds" "\<not> 0 \<le> x" by (auto simp: list_all_iff)
    then have "x \<in> set ?u" "x < 0" using su by auto
    then have "\<exists>x\<in>set ?u. x < 0" by blast
    then have lt: "length ?kept < length ?u" using kept_fewer_with_negative [OF du] by blast
    have "last ?u \<in> set inds" using ne su last_in_set by blast
    then have "index_of ?u (last ?u) \<in> set (np_inverse inds)"
      by (simp add: np_inverse_def)
    then have "index_of ?u (last ?u) < length result"
      using inv by (simp add: list_all_iff)
    then have "length ?u - 1 < length ?kept"
      using index_of_last [OF du ne] res by simp
    then show False using lt by simp
  qed
  have bound: "\<forall>x\<in>set ?u. 0 \<le> x \<and> x < int ?n"
  proof
    fix x assume "x \<in> set ?u"
    then have x: "x \<in> set inds" using su by simp
    then have "0 \<le> x" using nn by (simp add: list_all_iff)
    moreover have "x \<le> Max (set inds)" using x by simp
    ultimately show "0 \<le> x \<and> x < int ?n" using lastu by simp
  qed
  have kept: "?kept = map nat ?u" using kept_indices [OF du so bound] .
  have ts: "ts = map ((!) result) (np_inverse inds)" using gather_map [OF ga] .
  have "ts = map (\<lambda>i. drawn ! nat i) inds"
    unfolding ts np_inverse_def map_map
  proof (rule map_cong [OF refl])
    fix x assume "x \<in> set inds"
    then have xu: "x \<in> set ?u" using su by simp
    have j: "index_of ?u x < length ?u" using index_of_less [OF xu] .
    have "result ! index_of ?u x = drawn ! nat (?u ! index_of ?u x)"
      using j res kept by simp
    then show "((!) result \<circ> index_of ?u) x = drawn ! nat x"
      using index_of_nth [OF xu] by simp
  qed
  then have "torch_cat (map (\<lambda>i. drawn ! nat i) inds) = Inr out" using cat by simp
  then show ?thesis using nn dr(1-4) steps s2 lastu by auto
qed

text \<open>
  C4. When the target latent carries batch indices, \<^verbatim>\<open>CustomNOISE.generate_noise\<close>
  requests, for every index from \<open>0\<close> up to the largest index present, one noise sample
  seeded with seed + index against the reference example selected by the index modulo the
  reference batch size, and reassembles the output batch so that any two output
  positions with the same batch index receive identical noise.

  First part, for every call that returns a tensor. The samples requested are exactly
  these, in this order. No index is negative. There are the samples \<open>drawn\<close>, one per
  index \<open>k\<close> from \<open>0\<close> to the largest index, and the random states \<open>rs\<close> between
  them: sample \<open>k\<close> is what the custom noise's sampler, built for example
  \<open>k mod batch size\<close> and seed + \<open>k\<close>, draws in the state the sample before left
  (the first one in the state right after seeding), after the adapter's conversion and
  multiplier; and the output is the concatenation, position by position, of the sample
  drawn for the index of that position. So equal indices receive the same sample, and
  index \<open>1\<close> the one seeded with seed + 1.

  Second part: with indices that are not negative, at least one of them, a reference
  batch that is not empty and a custom noise whose samplers return tensors shaped like
  their reference, the call does return a tensor; it has one row per position, and the
  rows of positions with the same index are equal.
\<close>

theorem generate_noise_batch_index:
  assumes "self_multiplier self \<noteq> 0" and "batch_index lat = Some inds"
  shows "(\<forall>out s'. generate_noise env self lat (r, tr) = (Inr out, s') \<longrightarrow>
            snd s' = tr @ map (\<lambda>idx. (self_seed self + int idx,
                         select_example (samples lat) (idx mod length (rows (samples lat)))))
                       [0 ..< nat (Max (set inds) + 1)]
            \<and> (\<exists>chunks. torch_cat chunks = Inr out \<and> length chunks = length inds
                 \<and> (\<forall>p<length inds. \<forall>q<length inds.
                       inds ! p = inds ! q \<longrightarrow> chunks ! p = chunks ! q))
            \<and> list_all (\<lambda>i. 0 \<le> i) inds
            \<and> (\<exists>drawn rs.
                  length drawn = nat (Max (set inds) + 1)
                \<and> length rs = Suc (nat (Max (set inds) + 1))
                \<and> rs ! 0 = (manual_seed (self_seed self) r)\<lparr>py_rng := Seeded (self_seed self)\<rparr>
                \<and> rs ! nat (Max (set inds) + 1) = fst s'
                \<and> (\<forall>k<nat (Max (set inds) + 1).
                      draws_sample env self
                        (select_example (samples lat) (k mod length (rows (samples lat))))
                        (self_seed self + int k) (rs ! k) (drawn ! k) (rs ! Suc k))
                \<and> torch_cat (map (\<lambda>i. drawn ! nat i) inds) = Inr out))
       \<and> (samples_like_reference env self \<and> inds \<noteq> [] \<and> list_all (\<lambda>i. 0 \<le> i) inds
            \<and> rows (samples lat) \<noteq> [] \<longrightarrow>
            (\<exists>out s'. generate_noise env self lat (r, tr) = (Inr out, s')
               \<and> length (rows out) = length inds
               \<and> (\<forall>p<length inds. \<forall>q<length inds.
                     inds ! p = inds ! q \<longrightarrow> rows out ! p = rows out ! q)))"
proof (intro conjI allI impI)
  fix out s' assume g: "generate_noise env self lat (r, tr) = (Inr out, s')"
  show "snd s' = tr @ map (\<lambda>idx. (self_seed self + int idx,
                         select_example (samples lat) (idx mod length (rows (samples lat)))))
                       [0 ..< nat (Max (set inds) + 1)]"
    using generate_noise_batch_trace_chunks(1) [OF assms g] .
  show "\<exists>chunks. torch_cat chunks = Inr out \<and> length chunks = length inds
          \<and> (\<forall>p<length inds. \<forall>q<length inds. inds ! p = inds ! q \<longrightarrow> chunks ! p = chunks ! q)"
    using generate_noise_batch_trace_chunks(2) [OF assms g] .
  show "list_all (\<lambda>i. 0 \<le> i) inds"
    using generate_noise_batch_samples [OF assms g] by blast
  show "\<exists>drawn rs.
                  length drawn = nat (Max (set inds) + 1)
                \<and> length rs = Suc (nat (Max (set inds) + 1))
                \<and> rs ! 0 = (manual_seed (self_seed self) r)\<lparr>py_rng := Seeded (self_seed self)\<rparr>
                \<and> rs ! nat (Max (set inds) + 1) = fst s'
                \<and> (\<forall>k<nat (Max (set inds) + 1).
                      draws_sample env self
                        (select_example (samples lat) (k mod length (rows (samples lat))))
                        (self_seed self + int k) (rs ! k) (drawn ! k) (rs ! Suc k))
                \<and> torch_cat (map (\<lambda>i. drawn ! nat i) inds) = Inr out"
    using generate_noise_batch_samples [OF assms g] by blast
next
  assume w: "samples_like_reference env self \<and> inds \<noteq> [] \<and> list_all (\<lambda>i. 0 \<le> i) inds
            \<and> rows (samples lat) \<noteq> []"
  show "\<exists>out s'. generate_noise env self lat (r, tr) = (Inr out, s')
               \<and> length (rows out) = length inds
               \<and> (\<forall>p<length inds. \<forall>q<length inds.
                     inds ! p = inds ! q \<longrightarrow> rows out ! p = rows out ! q)"
    using generate_noise_batch_returns [OF assms, of env r tr] w by blast
qed

text \<open>
  At the example adapter (seed \<open>10\<close>, multiplier \<open>2\<close>, a sampler that fills its
  reference with the seed) and the batch indices \<open>[0, 0, 1]\<close> on a reference batch of
  two: the samples for the indices \<open>0\<close> and \<open>1\<close> are filled with \<open>20\<close> and
  \<open>22\<close>, and the output has the rows of the first, the first and the second.
\<close>

lemma draws_sample_example:
  "draws_sample example_env example_adapter t sd r noise r'
   \<longleftrightarrow> noise = t\<lparr>device := CPU, dtype := dtype t,
                    rows := map (map (\<lambda>x. x * 2)) (map (map (\<lambda>_. real_of_int sd)) (rows t))\<rparr>
       \<and> r' = r\<lparr>torch_rng := Opaque 1\<rparr>"
  by (auto simp: draws_sample_def example_env_def example_adapter_def seed_sampler_def
      finish_sample_def Let_def)

theorem generate_noise_batch_index_witness:
  "generate_noise example_env example_adapter
        \<lparr>samples = example_tensor, batch_index = Some [0, 0, 1]\<rparr> (example_rngs, [])
     = (Inr (example_tensor\<lparr>rows := [[20, 20], [20, 20], [22, 22]]\<rparr>),
        (\<lparr>torch_rng = Opaque 1, accel_rng = Seeded 10, py_rng = Seeded 10\<rparr>,
         [(10, example_tensor\<lparr>rows := [[1, 2]]\<rparr>), (11, example_tensor\<lparr>rows := [[3, 4]]\<rparr>)]))
   \<and> (\<exists>drawn. length drawn = 2
        \<and> drawn ! 0 = example_tensor\<lparr>rows := [[20, 20]]\<rparr>
        \<and> drawn ! 1 = example_tensor\<lparr>rows := [[22, 22]]\<rparr>
        \<and> torch_cat [drawn ! 0, drawn ! 0, drawn ! 1]
            = Inr (example_tensor\<lparr>rows := [[20, 20], [20, 20], [22, 22]]\<rparr>))"
proof -
  let ?lat = "\<lparr>samples = example_tensor, batch_index = Some [0, 0, 1]\<rparr>"
  let ?out = "example_tensor\<lparr>rows := [[20, 20], [20, 20], [22, 22]]\<rparr>"
  let ?s' = "(\<lparr>torch_rng = Opaque 1, accel_rng = Seeded 10, py_rng = Seeded 10\<rparr>,
         [(10, example_tensor\<lparr>rows := [[1, 2]]\<rparr>), (11, example_tensor\<lparr>rows := [[3, 4]]\<rparr>)])"
  have m: "self_multiplier example_adapter \<noteq> 0" by (simp add: example_adapter_def)
  have b: "batch_index ?lat = Some [0, 0, 1]" by simp
  have g: "generate_noise example_env example_adapter ?lat (example_rngs, []) = (Inr ?out, ?s')"
    by (simp add: generate_noise_def manual_seed_def np_unique_def np_inverse_def index_of_def
      example_adapter_def example_env_def example_rngs_def sample_noise_def seed_sampler_def
      example_tensor_def select_example_def torch_cat_def Let_def upt_rec)
  have mx: "nat (Max (set [0, 0, 1::int]) + 1) = 2" by simp
  from generate_noise_batch_index [OF m b, of example_env example_rngs "[]"] g
  obtain drawn rs where
    len: "length drawn = nat (Max (set [0, 0, 1::int]) + 1)"
    and steps: "\<forall>k<nat (Max (set [0, 0, 1::int]) + 1).
                  draws_sample example_env example_adapter
                    (select_example (samples ?lat) (k mod length (rows (samples ?lat))))
                    (self_seed example_adapter + int k) (rs ! k) (drawn ! k) (rs ! Suc k)"
    and cat: "torch_cat (map (\<lambda>i. drawn ! nat i) [0, 0, 1]) = Inr ?out"
    by blast
  have d0: "drawn ! 0 = example_tensor\<lparr>rows := [[20, 20]]\<rparr>"
    using steps [unfolded mx, rule_format, of 0] unfolding draws_sample_example
    by (simp add: example_adapter_def example_tensor_def select_example_def)
  have d1: "drawn ! 1 = example_tensor\<lparr>rows := [[22, 22]]\<rparr>"
    using steps [unfolded mx, rule_format, of 1] unfolding draws_sample_example
    by (simp add: example_adapter_def example_tensor_def select_example_def)
  have "torch_cat [drawn ! 0, drawn ! 0, drawn ! 1] = Inr ?out" using cat by simp
  then show ?thesis using g len mx d0 d1 by auto
qed

section \<open>Properties of \<^verbatim>\<open>SamplerNodeConfigOverride\<close>\<close>

lemma map_of_dict_set:
  "map_of (dict_set d k v) k' = (if k' = k then Some v else map_of d k')"
  by (induction d) auto

lemma map_of_apply_overrides:
  "map_of (apply_overrides params cfg ks kw) k =
     (if k \<in> set ks \<and> k \<in> set params \<and> dict_get cfg k \<noteq> PyNone
      then Some (dict_get cfg k) else map_of kw k)"
  by (induction ks arbitrary: kw) (auto simp: map_of_dict_set)

lemma override_cfg_values:
  "dict_get (override_sampler_cfg a) ''s_noise'' = PyFloat (o_s_noise a)"
  "dict_get (override_sampler_cfg a) ''eta'' = PyFloat (o_eta a)"
  "dict_get (override_sampler_cfg a) ''s_churn'' = PyFloat (o_s_churn a)"
  "dict_get (override_sampler_cfg a) ''r'' = PyFloat (o_r a)"
  "dict_get (override_sampler_cfg a) ''solver_type'' = PyStr (o_sde_solver a)"
  "map_of (override_sampler_cfg a) ''sampler'' = Some (PySampler (o_sampler a))"
  "override_sampler_cfg a \<noteq> []"
  by (simp_all add: override_sampler_cfg_def dict_get_def)

lemma choose_noise_sampler_errors:
  "choose_noise_sampler env cfg x lo hi sd ns = Inl e \<Longrightarrow> \<exists>m. e = External m"
  by (auto simp: choose_noise_sampler_def Let_def split: if_splits sum.splits)

lemma sampler_function_produced:
  "sampler_function env mdl x sigmas args (Some (override_sampler_cfg a)) ns extra kw =
     (if filter (\<lambda>s. 0 < s) sigmas = [] then Inl RuntimeError
      else (case choose_noise_sampler env (override_sampler_cfg a) x
                   (Min (set (filter (\<lambda>s. 0 < s) sigmas))) (Max (set sigmas))
                   (dict_get (case extra of None \<Rightarrow> [] | Some d \<Rightarrow> d) ''seed'') ns of
              Inl e \<Rightarrow> Inl e
            | Inr cb \<Rightarrow>
                Inr \<lparr>call_model = mdl, call_x = x, call_sigmas = sigmas, call_args = args,
                     call_extra_args = (case extra of None \<Rightarrow> [] | Some d \<Rightarrow> d),
                     call_kwargs = apply_overrides (sampler_params (o_sampler a))
                        (override_sampler_cfg a) KWARG_OVERRIDES
                        (if ''noise_sampler'' \<in> set (sampler_params (o_sampler a))
                         then dict_set kw ''noise_sampler'' cb else kw)\<rparr>))"
  by (auto simp: sampler_function_def override_cfg_values Let_def split: sum.splits)

lemma sampler_function_call:
  assumes "sampler_function env mdl x sigmas args (Some (override_sampler_cfg a)) ns extra kw
             = Inr call"
  shows "\<exists>cb. choose_noise_sampler env (override_sampler_cfg a) x
                   (Min (set (filter (\<lambda>s. 0 < s) sigmas))) (Max (set sigmas))
                   (dict_get (call_extra_args call) ''seed'') ns = Inr cb
              \<and> call_kwargs call = apply_overrides (sampler_params (o_sampler a))
                        (override_sampler_cfg a) KWARG_OVERRIDES
                        (if ''noise_sampler'' \<in> set (sampler_params (o_sampler a))
                         then dict_set kw ''noise_sampler'' cb else kw)"
proof (cases "filter (\<lambda>s. 0 < s) sigmas = []")
  case True
  then show ?thesis using assms unfolding sampler_function_produced by simp
next
  case False
  let ?ea = "case extra of None \<Rightarrow> [] | Some d \<Rightarrow> d"
  show ?thesis
  proof (cases "choose_noise_sampler env (override_sampler_cfg a) x
                   (Min (set (filter (\<lambda>s. 0 < s) sigmas))) (Max (set sigmas))
                   (dict_get ?ea ''seed'') ns")
    case (Inl e)
    then show ?thesis using assms False unfolding sampler_function_produced by simp
  next
    case (Inr cb)
    then have "call = \<lparr>call_model = mdl, call_x = x, call_sigmas = sigmas, call_args = args,
                     call_extra_args = ?ea,
                     call_kwargs = apply_overrides (sampler_params (o_sampler a))
                        (override_sampler_cfg a) KWARG_OVERRIDES
                        (if ''noise_sampler'' \<in> set (sampler_params (o_sampler a))
                         then dict_set kw ''noise_sampler'' cb else kw)\<rparr>"
      using assms False unfolding sampler_function_produced by simp
    then show ?thesis using Inr by simp
  qed
qed

lemma sampler_function_errors:
  assumes "sampler_function env mdl x sigmas args (Some (override_sampler_cfg a)) ns extra kw
             = Inl e"
  shows "(e = RuntimeError \<and> filter (\<lambda>s. 0 < s) sigmas = []) \<or> (\<exists>m. e = External m)"
proof (cases "filter (\<lambda>s. 0 < s) sigmas = []")
  case True
  then show ?thesis using assms unfolding sampler_function_produced by simp
next
  case False
  let ?ea = "case extra of None \<Rightarrow> [] | Some d \<Rightarrow> d"
  show ?thesis
  proof (cases "choose_noise_sampler env (override_sampler_cfg a) x
                   (Min (set (filter (\<lambda>s. 0 < s) sigmas))) (Max (set sigmas))
                   (dict_get ?ea ''seed'') ns")
    case (Inl e')
    then have "e = e'" using assms False unfolding sampler_function_produced by simp
    then show ?thesis using choose_noise_sampler_errors [OF Inl] by simp
  next
    case (Inr cb)
    then show ?thesis using assms False unfolding sampler_function_produced by simp
  qed
qed

lemma KWARG_OVERRIDES_members:
  "''s_noise'' \<in> set KWARG_OVERRIDES" "''eta'' \<in> set KWARG_OVERRIDES"
  "''s_churn'' \<in> set KWARG_OVERRIDES" "''r'' \<in> set KWARG_OVERRIDES"
  "''solver_type'' \<in> set KWARG_OVERRIDES" "''noise_sampler'' \<notin> set KWARG_OVERRIDES"
  by (simp_all add: KWARG_OVERRIDES_def)

lemma override_lookup:
  "map_of (apply_overrides params (override_sampler_cfg a) KWARG_OVERRIDES kw) ''s_noise''
     = (if ''s_noise'' \<in> set params then Some (PyFloat (o_s_noise a)) else map_of kw ''s_noise'')"
  "map_of (apply_overrides params (override_sampler_cfg a) KWARG_OVERRIDES kw) ''eta''
     = (if ''eta'' \<in> set params then Some (PyFloat (o_eta a)) else map_of kw ''eta'')"
  "map_of (apply_overrides params (override_sampler_cfg a) KWARG_OVERRIDES kw) ''s_churn''
     = (if ''s_churn'' \<in> set params then Some (PyFloat (o_s_churn a)) else map_of kw ''s_churn'')"
  "map_of (apply_overrides params (override_sampler_cfg a) KWARG_OVERRIDES kw) ''r''
     = (if ''r'' \<in> set params then Some (PyFloat (o_r a)) else map_of kw ''r'')"
  "map_of (apply_overrides params (override_sampler_cfg a) KWARG_OVERRIDES kw) ''solver_type''
     = (if ''solver_type'' \<in> set params then Some (PyStr (o_sde_solver a))
        else map_of kw ''solver_type'')"
  "map_of (apply_overrides params (override_sampler_cfg a) KWARG_OVERRIDES kw) ''noise_sampler''
     = map_of kw ''noise_sampler''"
  by (simp_all add: map_of_apply_overrides override_cfg_values KWARG_OVERRIDES_members)

text \<open>
  C7. The sampler that \<^verbatim>\<open>SamplerConfigOverride\<close> produces applies each of the
  overrides \<^verbatim>\<open>s_noise\<close>, \<^verbatim>\<open>eta\<close>, \<^verbatim>\<open>s_churn\<close>, \<^verbatim>\<open>r\<close>, \<^verbatim>\<open>solver_type\<close>
  to the wrapped step function if and only if that function declares the parameter;
  an override that is not declared is ignored without an error (\<^verbatim>\<open>r\<close> is ignored when
  it is not declared and passed through verbatim when it is), and the noise-sampler
  callback is substituted only when the wrapped function accepts one.

  The configuration is the one \<^verbatim>\<open>get_sampler\<close> attaches, so each of the five values is
  there and is not \<open>None\<close>. In the call of the wrapped step function, a declared
  override carries the node's value and an undeclared one is what the caller's keywords
  had (nothing, when they had nothing); \<^verbatim>\<open>noise_sampler\<close> is set exactly when it is
  declared. The call raises only for sigmas without a positive entry or when building
  the noise sampler raises, never for what the wrapped function declares.
\<close>

theorem override_applies_declared:
  "(\<forall>call. sampler_function env mdl x sigmas args (Some (override_sampler_cfg a)) ns extra kw
             = Inr call \<longrightarrow>
      map_of (call_kwargs call) ''s_noise''
        = (if ''s_noise'' \<in> set (sampler_params (o_sampler a))
           then Some (PyFloat (o_s_noise a)) else map_of kw ''s_noise'')
    \<and> map_of (call_kwargs call) ''eta''
        = (if ''eta'' \<in> set (sampler_params (o_sampler a))
           then Some (PyFloat (o_eta a)) else map_of kw ''eta'')
    \<and> map_of (call_kwargs call) ''s_churn''
        = (if ''s_churn'' \<in> set (sampler_params (o_sampler a))
           then Some (PyFloat (o_s_churn a)) else map_of kw ''s_churn'')
    \<and> map_of (call_kwargs call) ''r''
        = (if ''r'' \<in> set (sampler_params (o_sampler a))
           then Some (PyFloat (o_r a)) else map_of kw ''r'')
    \<and> map_of (call_kwargs call) ''solver_type''
        = (if ''solver_type'' \<in> set (sampler_params (o_sampler a))
           then Some (PyStr (o_sde_solver a)) else map_of kw ''solver_type'')
    \<and> (''noise_sampler'' \<notin> set (sampler_params (o_sampler a)) \<longrightarrow>
          map_of (call_kwargs call) ''noise_sampler'' = map_of kw ''noise_sampler'')
    \<and> (''noise_sampler'' \<in> set (sampler_params (o_sampler a)) \<longrightarrow>
          map_of (call_kwargs call) ''noise_sampler''
            = (case choose_noise_sampler env (override_sampler_cfg a) x
                      (Min (set (filter (\<lambda>s. 0 < s) sigmas))) (Max (set sigmas))
                      (dict_get (call_extra_args call) ''seed'') ns of
                 Inr cb \<Rightarrow> Some cb | Inl e \<Rightarrow> None)))
   \<and> (\<forall>e. sampler_function env mdl x sigmas args (Some (override_sampler_cfg a)) ns extra kw
             = Inl e \<longrightarrow>
        (e = RuntimeError \<and> filter (\<lambda>s. 0 < s) sigmas = []) \<or> (\<exists>m. e = External m))
   \<and> map_of (extra_options (get_sampler a)) ''override_sampler_cfg''
        = Some (PyDict (override_sampler_cfg a))"
proof (intro conjI allI impI)
  fix e
  assume "sampler_function env mdl x sigmas args (Some (override_sampler_cfg a)) ns extra kw
            = Inl e"
  then show "(e = RuntimeError \<and> filter (\<lambda>s. 0 < s) sigmas = []) \<or> (\<exists>m. e = External m)"
    by (rule sampler_function_errors)
next
  show "map_of (extra_options (get_sampler a)) ''override_sampler_cfg''
        = Some (PyDict (override_sampler_cfg a))"
    by (simp add: get_sampler_def map_of_dict_set)
qed (use sampler_function_call [of env mdl x sigmas args a ns extra kw] in
      \<open>auto simp: override_lookup map_of_dict_set\<close>)

theorem override_applies_declared_witness:
  "(\<exists>call. sampler_function example_override_env (PyObj ''model'') example_tensor [2, 1, 0] []
        (Some (override_sampler_cfg example_override_args)) PyNone None
        [(''eta'', PyFloat 1), (''callback'', PyObj ''callback'')] = Inr call
      \<and> call_kwargs call = [(''eta'', PyFloat 3), (''callback'', PyObj ''callback''),
                             (''noise_sampler'', PyNone), (''s_noise'', PyFloat 2)]
      \<and> map_of (call_kwargs call) ''r'' = None)
   \<and> (\<exists>call. sampler_function example_override_env (PyObj ''model'') example_tensor [2, 1, 0] []
        (Some (override_sampler_cfg (example_override_args\<lparr>o_sampler := sde_sampler\<rparr>)))
        PyNone None [(''r'', PyFloat (1 / 2))] = Inr call
      \<and> map_of (call_kwargs call) ''r'' = Some (PyFloat (1 / 4)))"
proof -
  let ?kw = "[(''eta'', PyFloat 1), (''callback'', PyObj ''callback'')]"
  have c: "choose_noise_sampler example_override_env (override_sampler_cfg a) x lo hi sd PyNone
             = Inr PyNone"
    if "o_noise_type a = None" "o_custom_noise_opt a = None" for a x lo hi sd
    using that by (simp add: choose_noise_sampler_def override_sampler_cfg_def dict_get_def Let_def)
  have r1: "sampler_function example_override_env (PyObj ''model'') example_tensor [2, 1, 0] []
        (Some (override_sampler_cfg example_override_args)) PyNone None ?kw
      = Inr \<lparr>call_model = PyObj ''model'', call_x = example_tensor, call_sigmas = [2, 1, 0],
             call_args = [], call_extra_args = [],
             call_kwargs = [(''eta'', PyFloat 3), (''callback'', PyObj ''callback''),
                            (''noise_sampler'', PyNone), (''s_noise'', PyFloat 2)]\<rparr>"
    by (simp add: sampler_function_produced c example_override_args_def ancestral_sampler_def
        KWARG_OVERRIDES_def override_cfg_values)
  have k1: "''r'' \<notin> set (sampler_params (o_sampler example_override_args))"
    by (simp add: example_override_args_def ancestral_sampler_def)
  have r2: "\<exists>call. sampler_function example_override_env (PyObj ''model'') example_tensor [2, 1, 0] []
        (Some (override_sampler_cfg (example_override_args\<lparr>o_sampler := sde_sampler\<rparr>)))
        PyNone None [(''r'', PyFloat (1 / 2))] = Inr call"
    by (simp add: sampler_function_produced c example_override_args_def)
  have k2: "''r'' \<in> set (sampler_params (o_sampler (example_override_args\<lparr>o_sampler := sde_sampler\<rparr>)))"
    by (simp add: sde_sampler_def)
  have v2: "o_r (example_override_args\<lparr>o_sampler := sde_sampler\<rparr>) = 1 / 4"
    by (simp add: example_override_args_def)
  note t1 = override_applies_declared [of example_override_env "PyObj ''model''" example_tensor
      "[2, 1, 0]" "[]" example_override_args PyNone None ?kw]
  note t2 = override_applies_declared [of example_override_env "PyObj ''model''" example_tensor
      "[2, 1, 0]" "[]" "example_override_args\<lparr>o_sampler := sde_sampler\<rparr>" PyNone None
      "[(''r'', PyFloat (1 / 2))]"]
  from t1 r1 k1 have a1: "map_of [(''eta'', PyFloat 3), (''callback'', PyObj ''callback''),
                            (''noise_sampler'', PyNone), (''s_noise'', PyFloat 2)] ''r'' = None"
    by simp
  from r2 obtain call2 where c2: "sampler_function example_override_env (PyObj ''model'') example_tensor [2, 1, 0] []
        (Some (override_sampler_cfg (example_override_args\<lparr>o_sampler := sde_sampler\<rparr>)))
        PyNone None [(''r'', PyFloat (1 / 2))] = Inr call2" by blast
  from t2 c2 k2 v2 have a2: "map_of (call_kwargs call2) ''r'' = Some (PyFloat (1 / 4))"
    by simp
  show ?thesis using r1 a1 c2 a2 by auto
qed


section \<open>Properties of the node registration table\<close>

text \<open>
  C8. The blend-filter node class and the two restart node classes are to be in the
  registration table if and only if the sibling plugin they need (\<^verbatim>\<open>bleh\<close> for
  \<^verbatim>\<open>SonarBlendFilterNoise\<close>, \<^verbatim>\<open>restart\<close> for \<^verbatim>\<open>KRestartSamplerCustomNoise\<close> and
  \<^verbatim>\<open>RestartSamplerCustomNoise\<close>) is available when the module loads. The code
  registers \<^verbatim>\<open>RestartSamplerCustomNoise\<close> only under the further condition
  \<^verbatim>\<open>hasattr(rs.restart_sampling, "RestartSampler")\<close>: with a \<^verbatim>\<open>restart\<close> plugin that
  has no \<^verbatim>\<open>RestartSampler\<close>, the plugin is available and the class is not registered.
\<close>

theorem restart_wrapper_counterexample:
  "(Map.empty(''restart'' \<mapsto> \<lparr>has_RestartSampler = False\<rparr>)) ''restart'' \<noteq> None
   \<and> \<not> registered (Map.empty(''restart'' \<mapsto> \<lparr>has_RestartSampler = False\<rparr>))
          RestartSamplerCustomNoise
   \<and> map_of (NODE_CLASS_MAPPINGS (Map.empty(''restart'' \<mapsto> \<lparr>has_RestartSampler = False\<rparr>)))
        ''RestartSamplerCustomNoise'' = None"
  by (simp add: registered_def NODE_CLASS_MAPPINGS_def)

text \<open>
  C8, as the code has it: \<^verbatim>\<open>SonarBlendFilterNoise\<close> is registered exactly when
  \<^verbatim>\<open>bleh\<close> is available, \<^verbatim>\<open>KRestartSamplerCustomNoise\<close> exactly when \<^verbatim>\<open>restart\<close>
  is available, and \<^verbatim>\<open>RestartSamplerCustomNoise\<close> exactly when \<^verbatim>\<open>restart\<close> is
  available and exposes \<^verbatim>\<open>RestartSampler\<close>; each under its own name.
\<close>

theorem registration_iff:
  "(registered M SonarBlendFilterNoiseNode \<longleftrightarrow> M ''bleh'' \<noteq> None)
   \<and> (registered M KRestartSamplerCustomNoise \<longleftrightarrow> M ''restart'' \<noteq> None)
   \<and> (registered M RestartSamplerCustomNoise
        \<longleftrightarrow> (\<exists>rs. M ''restart'' = Some rs \<and> has_RestartSampler rs))
   \<and> map_of (NODE_CLASS_MAPPINGS M) ''SonarBlendFilterNoise''
        = (if M ''bleh'' \<noteq> None then Some SonarBlendFilterNoiseNode else None)
   \<and> map_of (NODE_CLASS_MAPPINGS M) ''KRestartSamplerCustomNoise''
        = (if M ''restart'' \<noteq> None then Some KRestartSamplerCustomNoise else None)
   \<and> map_of (NODE_CLASS_MAPPINGS M) ''RestartSamplerCustomNoise''
        = (if \<exists>rs. M ''restart'' = Some rs \<and> has_RestartSampler rs
           then Some RestartSamplerCustomNoise else None)"
  by (cases "M ''bleh''"; cases "M ''restart''")
     (simp_all add: registered_def NODE_CLASS_MAPPINGS_def)

theorem registration_iff_witness:
  "registered (Map.empty(''bleh'' \<mapsto> \<lparr>has_RestartSampler = False\<rparr>)) SonarBlendFilterNoiseNode
   \<and> \<not> registered (Map.empty(''bleh'' \<mapsto> \<lparr>has_RestartSampler = False\<rparr>))
          KRestartSamplerCustomNoise
   \<and> registered (Map.empty(''restart'' \<mapsto> \<lparr>has_RestartSampler = True\<rparr>))
        RestartSamplerCustomNoise
   \<and> registered (Map.empty(''restart'' \<mapsto> \<lparr>has_RestartSampler = False\<rparr>))
        KRestartSamplerCustomNoise
   \<and> \<not> registered Map.empty SonarBlendFilterNoiseNode"
  using registration_iff [of "Map.empty(''bleh'' \<mapsto> \<lparr>has_RestartSampler = False\<rparr>)"]
        registration_iff [of "Map.empty(''restart'' \<mapsto> \<lparr>has_RestartSampler = True\<rparr>)"]
        registration_iff [of "Map.empty(''restart'' \<mapsto> \<lparr>has_RestartSampler = False\<rparr>)"]
        registration_iff [of Map.empty]
  by simp

end
